theory Spec2Isabelle
  imports Complex_Main "HOL-Library.Word"
begin

section \<open>The engine as the access layer sees it\<close>

text \<open>
  The access layer of \<^verbatim>\<open>cpp4sqlite.h\<close> / \<^verbatim>\<open>cpp4sqlite.cpp\<close> talks to the embedded
  engine through a compiled-statement handle (\<^verbatim>\<open>sqlite3_stmt*\<close>). The engine is not part
  of the repository; what follows is the part of its documented interface that the layer
  calls, as plain data: the placeholders and their bound values, the column names, the row
  the statement is positioned at, and what the steps still to come will produce.
  Strings are byte sequences (\<open>char\<close> is one byte), so an embedded zero byte is an
  ordinary element of the list.
\<close>

definition NUL :: char where
  "NUL = CHR 0x00"

definition SQLITE_OK :: int where "SQLITE_OK = 0"
definition SQLITE_ERROR :: int where "SQLITE_ERROR = 1"
definition SQLITE_RANGE :: int where "SQLITE_RANGE = 25"
definition SQLITE_ROW :: int where "SQLITE_ROW = 100"
definition SQLITE_DONE :: int where "SQLITE_DONE = 101"

definition SQLITE_INTEGER :: int where "SQLITE_INTEGER = 1"
definition SQLITE_FLOAT :: int where "SQLITE_FLOAT = 2"
definition SQLITE_TEXT :: int where "SQLITE_TEXT = 3"
definition SQLITE_BLOB :: int where "SQLITE_BLOB = 4"
definition SQLITE_NULL :: int where "SQLITE_NULL = 5"

text \<open>
  A cell of a result row is either SQL NULL or a value of one of the four other storage
  classes. For a value the engine offers several views, one per column accessor: its bytes
  (\<^verbatim>\<open>sqlite3_column_text\<close>, \<^verbatim>\<open>sqlite3_column_blob\<close>, \<^verbatim>\<open>sqlite3_column_bytes\<close>), and its
  coercions to a 32-bit integer, a 64-bit integer and a double. The coercions are the
  engine's business and are carried as data.
\<close>

datatype storage = INTEGER | FLOAT | TEXT | BLOB

datatype cell =
    Null
  | Value (vclass: storage) (vbytes: string) (vint: int) (vint64: int) (vdouble: real)

text \<open>What a placeholder holds once a native bind call has been accepted.\<close>

datatype bound = BInt int | BDouble real | BText string | BBlob string | BNull

text \<open>The native calls that change a statement, with the arguments the layer passes.\<close>

datatype ncall =
    CallReset
  | CallBindInt int int
  | CallBindDouble int real
  | CallBindText int string
  | CallBindBlob int string int
  | CallBindNull int
  | CallStep

datatype step_result = StepRow "cell list" | StepFail int

record stmt =
  param_count :: nat
  slots :: "int \<Rightarrow> bound option"
  bind_rc :: "int \<Rightarrow> bound \<Rightarrow> int"
  reset_rc :: int
  col_names :: "string list"
  current :: "cell list option"
  script :: "step_result list"
  calls :: "ncall list"

text \<open>
  \<open>param_count\<close> is \<^verbatim>\<open>sqlite3_bind_parameter_count\<close>; \<open>slots\<close> are the placeholders
  (1-based); \<open>bind_rc\<close> and \<open>reset_rc\<close> are the result codes the engine will give to a bind
  in range and to a reset (0 is success; the engine may refuse for reasons of its own, such
  as memory or size limits); \<open>current\<close> is the row the statement is positioned at, if any;
  \<open>script\<close> is what the coming calls of \<^verbatim>\<open>sqlite3_step\<close> produce, in order, and the empty
  script means the statement is done; \<open>calls\<close> logs the state-changing native calls.
  A reset leaves the statement without a current row. What a statement yields when it is
  run again after a reset is the engine's business: the model leaves the script as it is,
  and no property below depends on it.
\<close>

definition sqlite3_bind_parameter_count :: "stmt \<Rightarrow> int" where
  "sqlite3_bind_parameter_count st = int (param_count st)"

definition sqlite3_reset :: "stmt \<Rightarrow> int \<times> stmt" where
  "sqlite3_reset st = (reset_rc st, st\<lparr>current := None, calls := calls st @ [CallReset]\<rparr>)"

definition native_bind :: "ncall \<Rightarrow> int \<Rightarrow> bound \<Rightarrow> stmt \<Rightarrow> int \<times> stmt" where
  "native_bind c i v st =
     (let rc = (if 1 \<le> i \<and> i \<le> int (param_count st) then bind_rc st i v else SQLITE_RANGE);
          st1 = st\<lparr>calls := calls st @ [c]\<rparr>
      in (rc, if rc = SQLITE_OK then st1\<lparr>slots := (slots st1)(i \<mapsto> v)\<rparr> else st1))"

definition sqlite3_bind_int :: "stmt \<Rightarrow> int \<Rightarrow> int \<Rightarrow> int \<times> stmt" where
  "sqlite3_bind_int st i n = native_bind (CallBindInt i n) i (BInt n) st"

definition sqlite3_bind_double :: "stmt \<Rightarrow> int \<Rightarrow> real \<Rightarrow> int \<times> stmt" where
  "sqlite3_bind_double st i d = native_bind (CallBindDouble i d) i (BDouble d) st"

text \<open>
  The layer always passes the length \<open>-1\<close> to \<^verbatim>\<open>sqlite3_bind_text\<close>: the engine then reads
  the buffer up to its first zero byte.
\<close>

definition sqlite3_bind_text :: "stmt \<Rightarrow> int \<Rightarrow> string \<Rightarrow> int \<times> stmt" where
  "sqlite3_bind_text st i buf =
     native_bind (CallBindText i buf) i (BText (takeWhile (\<lambda>c. c \<noteq> NUL) buf)) st"

text \<open>
  \<^verbatim>\<open>sqlite3_bind_blob\<close> takes the buffer and a byte count of type \<^verbatim>\<open>int\<close>, and binds that
  many bytes as a blob. Its contract asks for a count that is not negative, but the engine
  does not refuse a negative one: as for the length \<open>-1\<close> of a text, it then takes the
  buffer up to its first zero byte and binds that as text.
\<close>

definition sqlite3_bind_blob :: "stmt \<Rightarrow> int \<Rightarrow> string \<Rightarrow> int \<Rightarrow> int \<times> stmt" where
  "sqlite3_bind_blob st i buf n =
     (if n < 0
      then native_bind (CallBindBlob i buf n) i (BText (takeWhile (\<lambda>c. c \<noteq> NUL) buf)) st
      else native_bind (CallBindBlob i buf n) i (BBlob (take (nat n) buf)) st)"

definition sqlite3_bind_null :: "stmt \<Rightarrow> int \<Rightarrow> int \<times> stmt" where
  "sqlite3_bind_null st i = native_bind (CallBindNull i) i BNull st"

section \<open>Errors\<close>

text \<open>
  Every \<^verbatim>\<open>throw\<close> of the source is a value of this type. The source throws
  \<^verbatim>\<open>std::runtime_error\<close> with a message; \<^verbatim>\<open>std::vector::at\<close> throws \<^verbatim>\<open>std::out_of_range\<close>;
  the construction of a \<^verbatim>\<open>std::string\<close> of an impossible size throws \<^verbatim>\<open>std::length_error\<close>.
  The other constructors stand for the messages:
  \<^verbatim>\<open>"too many bind params"\<close>, \<^verbatim>\<open>"too few bind params"\<close>,
  \<^verbatim>\<open>"Binder::reset error: " + errString(res)\<close>, \<^verbatim>\<open>"bind fail at posn " + bindPosn\<close>,
  \<^verbatim>\<open>"Invalid filePath: " + path\<close>,
  \<^verbatim>\<open>"Read: Unrecognised read type requested for `" + name + "`"\<close>,
  \<^verbatim>\<open>name + " col name not found"\<close>, \<^verbatim>\<open>"too many types"\<close>, \<^verbatim>\<open>"too few types"\<close>,
  \<^verbatim>\<open>"Resultset::step error: " + res\<close>, \<^verbatim>\<open>"Connection::QuickQuery error: " + errorMsg\<close>.
\<close>

datatype error =
    TooManyBindParams
  | TooFewBindParams
  | ResetError int
  | BindFail int
  | InvalidFilePath string
  | UnrecognisedReadType string
  | ColNameNotFound string
  | OutOfRange
  | LengthError
  | TooManyTypes
  | TooFewTypes
  | StepError int
  | QuickQueryError string

section \<open>Binder\<close>

text \<open>
  The arguments of \<^verbatim>\<open>setParams\<close> are a heterogeneous pack; \<^verbatim>\<open>bind\<close> dispatches on the
  static type of each with \<^verbatim>\<open>if constexpr\<close>. \<open>POther\<close> is any type none of the branches
  matches: for it \<^verbatim>\<open>bind\<close> only advances the position.
\<close>

datatype param =
    PInt int
  | PDouble real
  | PCStr string
  | PString string
  | PPath string
  | PNullptr
  | POther

text \<open>
  The file system as \<^verbatim>\<open>std::ifstream\<close> shows it to \<^verbatim>\<open>bind\<close>. A path either cannot be opened,
  or opens on a file with some content, whose full read then succeeds or reports failure,
  or opens on something for which \<^verbatim>\<open>tellg()\<close> gives no usable size (a directory): \<^verbatim>\<open>bind\<close>
  uses the size unchecked, and the construction of the buffer \<^verbatim>\<open>std::string str(fsize, '\0')\<close>
  throws before anything is read.
\<close>

datatype ifile = File string bool | NoSize

type_synonym filesystem = "string \<Rightarrow> ifile option"

record Binder =
  bindPosn :: int
  stmnt :: stmt

definition Binder_new :: "stmt \<Rightarrow> Binder" where
  "Binder_new st = \<lparr>bindPosn = 0, stmnt = st\<rparr>"

definition reset :: "Binder \<Rightarrow> (error + unit) \<times> Binder" where
  "reset b =
     (let (res, st) = sqlite3_reset (stmnt b);
          b1 = b\<lparr>stmnt := st\<rparr>
      in if res \<noteq> 0 then (Inl (ResetError res), b1)
         else (Inr (), b1\<lparr>bindPosn := 0\<rparr>))"

definition checkBindParamCount :: "nat \<Rightarrow> Binder \<Rightarrow> error + unit" where
  "checkBindParamCount sz b =
     (let count = nat (sqlite3_bind_parameter_count (stmnt b))
      in if sz \<noteq> count
         then Inl (if sz > count then TooManyBindParams else TooFewBindParams)
         else Inr ())"

definition checkResult :: "int \<times> stmt \<Rightarrow> Binder \<Rightarrow> (error + unit) \<times> Binder" where
  "checkResult r b =
     (let b1 = b\<lparr>stmnt := snd r\<rparr>
      in if fst r \<noteq> 0 then (Inl (BindFail (bindPosn b)), b1) else (Inr (), b1))"

definition bindInt :: "int \<Rightarrow> Binder \<Rightarrow> (error + unit) \<times> Binder" where
  "bindInt p b = checkResult (sqlite3_bind_int (stmnt b) (bindPosn b) p) b"

definition bindDouble :: "real \<Rightarrow> Binder \<Rightarrow> (error + unit) \<times> Binder" where
  "bindDouble p b = checkResult (sqlite3_bind_double (stmnt b) (bindPosn b) p) b"

definition bindText :: "string \<Rightarrow> Binder \<Rightarrow> (error + unit) \<times> Binder" where
  "bindText p b = checkResult (sqlite3_bind_text (stmnt b) (bindPosn b) p) b"

text \<open>\<^verbatim>\<open>static_cast<int>(param.size())\<close>: the size, of type \<^verbatim>\<open>size_t\<close>, cut to 32 bits.\<close>

definition size_as_int :: "string \<Rightarrow> int" where
  "size_as_int s = sint (word_of_nat (length s) :: 32 word)"

definition bindBlob :: "string \<Rightarrow> Binder \<Rightarrow> (error + unit) \<times> Binder" where
  "bindBlob p b =
     checkResult (sqlite3_bind_blob (stmnt b) (bindPosn b) p (size_as_int p)) b"

text \<open>\<^verbatim>\<open>strlen\<close>: the number of bytes before the first zero byte.\<close>

definition strlen :: "string \<Rightarrow> nat" where
  "strlen s = length (takeWhile (\<lambda>c. c \<noteq> NUL) s)"

fun bind :: "filesystem \<Rightarrow> param \<Rightarrow> Binder \<Rightarrow> (error + unit) \<times> Binder" where
  "bind fs p b0 =
     (let b = b0\<lparr>bindPosn := bindPosn b0 + 1\<rparr>
      in case p of
           PInt n \<Rightarrow> bindInt n b
         | PDouble d \<Rightarrow> bindDouble d b
         | PCStr s \<Rightarrow> bindText s b
         | PString s \<Rightarrow> (if strlen s = length s then bindText s b else bindBlob s b)
         | PPath path \<Rightarrow>
             (case fs path of
                None \<Rightarrow> (Inl (InvalidFilePath path), b)
              | Some NoSize \<Rightarrow> (Inl LengthError, b)
              | Some (File str ok) \<Rightarrow> (if \<not> ok then (Inr (), b) else bindBlob str b))
         | PNullptr \<Rightarrow> checkResult (sqlite3_bind_null (stmnt b) (bindPosn b)) b
         | POther \<Rightarrow> (Inr (), b))"

text \<open>The fold \<^verbatim>\<open>(bind(arg), ...)\<close>: left to right, stopping at the first throw.\<close>

fun doBinds :: "filesystem \<Rightarrow> param list \<Rightarrow> Binder \<Rightarrow> (error + unit) \<times> Binder" where
  "doBinds fs [] b = (Inr (), b)"
| "doBinds fs (p # ps) b =
     (case bind fs p b of
        (Inl e, b1) \<Rightarrow> (Inl e, b1)
      | (Inr _, b1) \<Rightarrow> doBinds fs ps b1)"

definition setParams :: "filesystem \<Rightarrow> param list \<Rightarrow> Binder \<Rightarrow> (error + unit) \<times> Binder" where
  "setParams fs vals b =
     (case checkBindParamCount (length vals) b of
        Inl e \<Rightarrow> (Inl e, b)
      | Inr _ \<Rightarrow>
          (case reset b of
             (Inl e, b1) \<Rightarrow> (Inl e, b1)
           | (Inr _, b1) \<Rightarrow> doBinds fs vals b1))"

section \<open>Reading columns: the engine side\<close>

text \<open>
  \<^verbatim>\<open>sqlite3_step\<close> consumes the next entry of the script. A row positions the statement
  on it and gives \<open>SQLITE_ROW\<close>; the end of the script gives \<open>SQLITE_DONE\<close> and leaves no
  current row; a failure gives the engine's error code and leaves no current row. The
  engine never reports a failure as \<open>SQLITE_ROW\<close> or \<open>SQLITE_DONE\<close>: a script entry that
  carries one of these two codes as its failure is read as the generic \<open>SQLITE_ERROR\<close>.
\<close>

definition failure_code :: "int \<Rightarrow> int" where
  "failure_code rc = (if rc = SQLITE_ROW \<or> rc = SQLITE_DONE then SQLITE_ERROR else rc)"

definition sqlite3_step :: "stmt \<Rightarrow> int \<times> stmt" where
  "sqlite3_step st =
     (let st1 = st\<lparr>calls := calls st @ [CallStep]\<rparr>
      in case script st of
           [] \<Rightarrow> (SQLITE_DONE, st1\<lparr>current := None\<rparr>)
         | StepRow r # rest \<Rightarrow> (SQLITE_ROW, st1\<lparr>current := Some r, script := rest\<rparr>)
         | StepFail rc # rest \<Rightarrow>
             (failure_code rc, st1\<lparr>current := None, script := rest\<rparr>))"

definition sqlite3_column_count :: "stmt \<Rightarrow> int" where
  "sqlite3_column_count st = int (length (col_names st))"

definition sqlite3_data_count :: "stmt \<Rightarrow> int" where
  "sqlite3_data_count st =
     (case current st of None \<Rightarrow> 0 | Some r \<Rightarrow> int (length (col_names st)))"

text \<open>
  The cell a column accessor sees. Without a current row, or for an index out of range,
  the accessors of the engine answer as for SQL NULL.
\<close>

definition cell_at :: "stmt \<Rightarrow> int \<Rightarrow> cell" where
  "cell_at st i =
     (case current st of
        None \<Rightarrow> Null
      | Some r \<Rightarrow> if 0 \<le> i \<and> i < int (length r) then r ! nat i else Null)"

definition storage_code :: "storage \<Rightarrow> int" where
  "storage_code k =
     (case k of INTEGER \<Rightarrow> SQLITE_INTEGER | FLOAT \<Rightarrow> SQLITE_FLOAT
              | TEXT \<Rightarrow> SQLITE_TEXT | BLOB \<Rightarrow> SQLITE_BLOB)"

definition sqlite3_column_type :: "stmt \<Rightarrow> int \<Rightarrow> int" where
  "sqlite3_column_type st i =
     (case cell_at st i of Null \<Rightarrow> SQLITE_NULL | Value k _ _ _ _ \<Rightarrow> storage_code k)"

text \<open>The name of a column; a null pointer (\<open>None\<close>) for an index out of range.\<close>

definition sqlite3_column_name :: "stmt \<Rightarrow> int \<Rightarrow> string option" where
  "sqlite3_column_name st i =
     (if 0 \<le> i \<and> i < int (length (col_names st)) then Some (col_names st ! nat i) else None)"

text \<open>
  \<^verbatim>\<open>sqlite3_column_text\<close> and \<^verbatim>\<open>sqlite3_column_blob\<close> give a null pointer for SQL NULL,
  and \<^verbatim>\<open>sqlite3_column_bytes\<close> gives 0 then.
\<close>

definition sqlite3_column_text :: "stmt \<Rightarrow> int \<Rightarrow> string option" where
  "sqlite3_column_text st i =
     (case cell_at st i of Null \<Rightarrow> None | Value _ bs _ _ _ \<Rightarrow> Some bs)"

definition sqlite3_column_blob :: "stmt \<Rightarrow> int \<Rightarrow> string option" where
  "sqlite3_column_blob st i =
     (case cell_at st i of Null \<Rightarrow> None | Value _ bs _ _ _ \<Rightarrow> Some bs)"

definition sqlite3_column_bytes :: "stmt \<Rightarrow> int \<Rightarrow> int" where
  "sqlite3_column_bytes st i =
     (case cell_at st i of Null \<Rightarrow> 0 | Value _ bs _ _ _ \<Rightarrow> int (length bs))"

definition sqlite3_column_int :: "stmt \<Rightarrow> int \<Rightarrow> int" where
  "sqlite3_column_int st i =
     (case cell_at st i of Null \<Rightarrow> 0 | Value _ _ n _ _ \<Rightarrow> n)"

definition sqlite3_column_int64 :: "stmt \<Rightarrow> int \<Rightarrow> int" where
  "sqlite3_column_int64 st i =
     (case cell_at st i of Null \<Rightarrow> 0 | Value _ _ _ n _ \<Rightarrow> n)"

definition sqlite3_column_double :: "stmt \<Rightarrow> int \<Rightarrow> real" where
  "sqlite3_column_double st i =
     (case cell_at st i of Null \<Rightarrow> 0 | Value _ _ _ _ d \<Rightarrow> d)"

section \<open>ResultColumn\<close>

text \<open>
  A \<^verbatim>\<open>ResultColumn\<close> holds the statement handle, its position and the storage class the
  engine reported for that position when the object was constructed. The handle is the
  one of the owning \<^verbatim>\<open>Resultset\<close>, so the methods take the statement as an argument.
\<close>

record ResultColumn =
  posn :: int
  type :: int

definition ResultColumn_new :: "stmt \<Rightarrow> int \<Rightarrow> ResultColumn" where
  "ResultColumn_new st p = \<lparr>posn = p, type = sqlite3_column_type st p\<rparr>"

text \<open>
  \<^verbatim>\<open>name()\<close> builds a \<^verbatim>\<open>std::string\<close> from the pointer the engine returns. For a position
  that is not a column the pointer is null and the C++ is undefined; the model gives the
  empty string there.
\<close>

definition name :: "ResultColumn \<Rightarrow> stmt \<Rightarrow> string" where
  "name c st = (case sqlite3_column_name st (posn c) of None \<Rightarrow> [] | Some s \<Rightarrow> s)"

text \<open>
  \<^verbatim>\<open>std::string{text, size}\<close> and \<^verbatim>\<open>std::string{data, data + size}\<close>: the first \<open>size\<close>
  bytes at the pointer; with a null pointer the engine gives size 0 and the string is
  empty.
\<close>

definition string_of :: "string option \<Rightarrow> int \<Rightarrow> string" where
  "string_of p n = (case p of None \<Rightarrow> [] | Some bs \<Rightarrow> take (nat n) bs)"

definition readText :: "ResultColumn \<Rightarrow> stmt \<Rightarrow> string" where
  "readText c st =
     (let text = sqlite3_column_text st (posn c);
          sz = sqlite3_column_bytes st (posn c)
      in string_of text sz)"

definition readBlob :: "ResultColumn \<Rightarrow> stmt \<Rightarrow> string" where
  "readBlob c st =
     (let data = sqlite3_column_blob st (posn c);
          sz = sqlite3_column_bytes st (posn c)
      in string_of data sz)"

definition ResultColumn_fieldS :: "ResultColumn \<Rightarrow> stmt \<Rightarrow> string" where
  "ResultColumn_fieldS c st = readText c st"

definition ResultColumn_field :: "ResultColumn \<Rightarrow> stmt \<Rightarrow> string \<times> string" where
  "ResultColumn_field c st = (name c st, ResultColumn_fieldS c st)"

text \<open>
  The template argument of \<^verbatim>\<open>read<T>\<close>: the four types the \<^verbatim>\<open>if constexpr\<close> chain knows,
  and \<open>TOther\<close> for any other type. The result \<^verbatim>\<open>std::optional<T>\<close> is an optional tagged
  value.
\<close>

datatype rtype = TInt | TLongLong | TDouble | TString | TOther

datatype rvalue = RInt int | RLongLong int | RDouble real | RString string

definition read :: "rtype \<Rightarrow> ResultColumn \<Rightarrow> stmt \<Rightarrow> error + rvalue option" where
  "read T c st =
     (if type c = SQLITE_NULL then Inr None
      else case T of
             TInt \<Rightarrow> Inr (Some (RInt (sqlite3_column_int st (posn c))))
           | TLongLong \<Rightarrow> Inr (Some (RLongLong (sqlite3_column_int64 st (posn c))))
           | TDouble \<Rightarrow> Inr (Some (RDouble (sqlite3_column_double st (posn c))))
           | TString \<Rightarrow>
               Inr (Some (RString (if type c = SQLITE_BLOB then readBlob c st
                                   else readText c st)))
           | TOther \<Rightarrow> Inl (UnrecognisedReadType (name c st)))"

section \<open>Resultset\<close>

record Resultset =
  rstmnt :: stmt
  hasRow :: bool
  columnPosn :: int
  columns :: "ResultColumn list"

text \<open>
  \<open>rstmnt\<close> is the member \<^verbatim>\<open>stmnt\<close> of \<^verbatim>\<open>Resultset\<close>. \<open>columnPosn\<close> is a C++ \<^verbatim>\<open>int\<close>; it only
  ever grows by one per call, its overflow is undefined in C++, and the model counts in
  the integers.
\<close>

definition countColumns :: "Resultset \<Rightarrow> int" where
  "countColumns rs = sqlite3_column_count (rstmnt rs)"

definition countData :: "Resultset \<Rightarrow> int" where
  "countData rs = sqlite3_data_count (rstmnt rs)"

definition empty :: "Resultset \<Rightarrow> bool" where
  "empty rs = (\<not> hasRow rs)"

definition step :: "Resultset \<Rightarrow> (error + unit) \<times> Resultset" where
  "step rs =
     (let (res, st) = sqlite3_step (rstmnt rs);
          rs1 = rs\<lparr>rstmnt := st\<rparr>
      in if res = SQLITE_DONE then (Inr (), rs1\<lparr>hasRow := False\<rparr>)
         else if res = SQLITE_ROW then (Inr (), rs1\<lparr>hasRow := True, columnPosn := 0\<rparr>)
         else (Inl (StepError res), rs1))"

text \<open>
  The constructor steps once and then creates one \<^verbatim>\<open>ResultColumn\<close> per declared column.
  The columns are created here and nowhere else.
\<close>

definition Resultset_new :: "stmt \<Rightarrow> error + Resultset" where
  "Resultset_new st =
     (case step \<lparr>rstmnt = st, hasRow = False, columnPosn = 0, columns = []\<rparr> of
        (Inl e, rs) \<Rightarrow> Inl e
      | (Inr _, rs) \<Rightarrow>
          Inr (rs\<lparr>columns :=
                 map (\<lambda>i. ResultColumn_new (rstmnt rs) (int i)) [0..<nat (countColumns rs)]\<rparr>))"

text \<open>
  \<^verbatim>\<open>std::vector::at\<close> with an \<^verbatim>\<open>int\<close> argument: the index is converted to \<^verbatim>\<open>size_t\<close>, so
  a negative one is out of range like one that is too large.
\<close>

definition vector_at :: "'a list \<Rightarrow> int \<Rightarrow> error + 'a" where
  "vector_at xs i = (if 0 \<le> i \<and> i < int (length xs) then Inr (xs ! nat i) else Inl OutOfRange)"

text \<open>
  \<^verbatim>\<open>posn(name)\<close>: the index of the first column with that name, found by a loop over
  \<^verbatim>\<open>columns\<close>.
\<close>

fun posn_loop :: "ResultColumn list \<Rightarrow> stmt \<Rightarrow> string \<Rightarrow> int \<Rightarrow> int option" where
  "posn_loop [] st nm i = None"
| "posn_loop (c # cs) st nm i = (if name c st = nm then Some i else posn_loop cs st nm (i + 1))"

definition Resultset_posn :: "Resultset \<Rightarrow> string \<Rightarrow> error + int" where
  "Resultset_posn rs nm =
     (case posn_loop (columns rs) (rstmnt rs) nm 0 of
        None \<Rightarrow> Inl (ColNameNotFound nm)
      | Some i \<Rightarrow> Inr i)"

text \<open>
  The accessors declared \<^verbatim>\<open>const\<close> return a value only. \<^verbatim>\<open>field(int)\<close> and
  \<^verbatim>\<open>field(name)\<close> give a \<^verbatim>\<open>SqlField\<close>, a pair of name and value; the default-constructed
  pair is two empty strings.
\<close>

definition field :: "Resultset \<Rightarrow> int \<Rightarrow> error + string \<times> string" where
  "field rs p =
     (if \<not> hasRow rs then Inr ([], [])
      else case vector_at (columns rs) p of
             Inl e \<Rightarrow> Inl e
           | Inr c \<Rightarrow> Inr (ResultColumn_field c (rstmnt rs)))"

definition fieldS :: "Resultset \<Rightarrow> int \<Rightarrow> error + string" where
  "fieldS rs p =
     (if \<not> hasRow rs then Inr []
      else case vector_at (columns rs) p of
             Inl e \<Rightarrow> Inl e
           | Inr c \<Rightarrow> Inr (ResultColumn_fieldS c (rstmnt rs)))"

definition fieldS_name :: "Resultset \<Rightarrow> string \<Rightarrow> error + string" where
  "fieldS_name rs nm =
     (case Resultset_posn rs nm of Inl e \<Rightarrow> Inl e | Inr p \<Rightarrow> fieldS rs p)"

definition field_name :: "Resultset \<Rightarrow> string \<Rightarrow> error + string \<times> string" where
  "field_name rs nm =
     (case Resultset_posn rs nm of
        Inl e \<Rightarrow> Inl e
      | Inr p \<Rightarrow>
          (case vector_at (columns rs) p of
             Inl e \<Rightarrow> Inl e
           | Inr c \<Rightarrow> Inr (ResultColumn_field c (rstmnt rs))))"

definition nextField :: "Resultset \<Rightarrow> (error + string \<times> string) \<times> Resultset" where
  "nextField rs =
     (let rs1 = rs\<lparr>columnPosn := columnPosn rs + 1\<rparr>
      in (field rs1 (columnPosn rs1), rs1))"

definition nextFieldS :: "Resultset \<Rightarrow> (error + string) \<times> Resultset" where
  "nextFieldS rs =
     (let rs1 = rs\<lparr>columnPosn := columnPosn rs + 1\<rparr>
      in (fieldS rs1 (columnPosn rs1), rs1))"

text \<open>The three overloads of \<^verbatim>\<open>fieldT\<close>: at the sequential cursor, at a position, by name.\<close>

definition fieldT :: "rtype \<Rightarrow> Resultset \<Rightarrow> error + rvalue option" where
  "fieldT T rs =
     (case vector_at (columns rs) (columnPosn rs) of
        Inl e \<Rightarrow> Inl e
      | Inr c \<Rightarrow> read T c (rstmnt rs))"

definition fieldT_posn :: "rtype \<Rightarrow> Resultset \<Rightarrow> int \<Rightarrow> error + rvalue option" where
  "fieldT_posn T rs p =
     (if \<not> hasRow rs then Inr None
      else case vector_at (columns rs) p of
             Inl e \<Rightarrow> Inl e
           | Inr c \<Rightarrow> read T c (rstmnt rs))"

definition fieldT_name :: "rtype \<Rightarrow> Resultset \<Rightarrow> string \<Rightarrow> error + rvalue option" where
  "fieldT_name T rs nm =
     (case Resultset_posn rs nm of Inl e \<Rightarrow> Inl e | Inr p \<Rightarrow> fieldT_posn T rs p)"

definition nextFieldT :: "rtype \<Rightarrow> Resultset \<Rightarrow> (error + rvalue option) \<times> Resultset" where
  "nextFieldT T rs =
     (let rs1 = rs\<lparr>columnPosn := columnPosn rs + 1\<rparr>
      in (fieldT T rs1, rs1))"

text \<open>
  The loops of \<^verbatim>\<open>row()\<close> and \<^verbatim>\<open>rowS()\<close> call an accessor for \<open>i = 0, \<dots>, colCount - 1\<close> and
  push the results; a throw ends the loop.
\<close>

fun collect :: "('i \<Rightarrow> error + 'a) \<Rightarrow> 'i list \<Rightarrow> error + 'a list" where
  "collect f [] = Inr []"
| "collect f (i # is) =
     (case f i of
        Inl e \<Rightarrow> Inl e
      | Inr x \<Rightarrow> (case collect f is of Inl e \<Rightarrow> Inl e | Inr xs \<Rightarrow> Inr (x # xs)))"

definition indices :: "int \<Rightarrow> int list" where
  "indices n = map int [0..<nat n]"

definition row :: "Resultset \<Rightarrow> (error + (string \<times> string) list option) \<times> Resultset" where
  "row rs =
     (if \<not> hasRow rs then (Inr None, rs)
      else case collect (field rs) (indices (countData rs)) of
             Inl e \<Rightarrow> (Inl e, rs)
           | Inr r \<Rightarrow>
               (case step rs of
                  (Inl e, rs1) \<Rightarrow> (Inl e, rs1)
                | (Inr _, rs1) \<Rightarrow> (Inr (Some r), rs1)))"

definition rowS :: "Resultset \<Rightarrow> (error + string list option) \<times> Resultset" where
  "rowS rs =
     (if \<not> hasRow rs then (Inr None, rs)
      else case collect (fieldS rs) (indices (countData rs)) of
             Inl e \<Rightarrow> (Inl e, rs)
           | Inr r \<Rightarrow>
               (case step rs of
                  (Inl e, rs1) \<Rightarrow> (Inl e, rs1)
                | (Inr _, rs1) \<Rightarrow> (Inr (Some r), rs1)))"

definition checkTypeCount :: "int \<Rightarrow> Resultset \<Rightarrow> error + unit" where
  "checkTypeCount count rs =
     (let colCount = countData rs
      in if colCount \<noteq> count
         then Inl (if count > colCount then TooManyTypes else TooFewTypes)
         else Inr ())"

text \<open>
  The pack expansion \<^verbatim>\<open>std::make_tuple(fieldT<T>(incPos())...)\<close> of \<^verbatim>\<open>rowT\<close>, where
  \<^verbatim>\<open>incPos\<close> returns \<^verbatim>\<open>columnPosn++\<close>: one typed read per type, each at the value the
  sequential cursor had before its own increment. C++ does not fix the order in which the
  arguments of a call are evaluated, and compilers differ (clang takes them first to last,
  g++ last to first). The model takes them in the order of the pack, first type first,
  which is what the tests of the repository expect; the values \<^verbatim>\<open>rowT\<close> returns and the
  column an unsupported-type error names are those of such a build. Which positions are
  read, whether a read fails and whether the statement is stepped do not depend on the
  order.
\<close>

fun readPack :: "rtype list \<Rightarrow> Resultset \<Rightarrow> (error + rvalue option list) \<times> Resultset" where
  "readPack [] rs = (Inr [], rs)"
| "readPack (T # Ts) rs =
     (let p = columnPosn rs;
          rs1 = rs\<lparr>columnPosn := columnPosn rs + 1\<rparr>
      in case fieldT_posn T rs1 p of
           Inl e \<Rightarrow> (Inl e, rs1)
         | Inr v \<Rightarrow>
             (case readPack Ts rs1 of
                (Inl e, rs2) \<Rightarrow> (Inl e, rs2)
              | (Inr vs, rs2) \<Rightarrow> (Inr (v # vs), rs2)))"

definition rowT :: "rtype list \<Rightarrow> Resultset \<Rightarrow> (error + rvalue option list option) \<times> Resultset" where
  "rowT Ts rs =
     (if \<not> hasRow rs then (Inr None, rs)
      else case checkTypeCount (int (length Ts)) rs of
             Inl e \<Rightarrow> (Inl e, rs)
           | Inr _ \<Rightarrow>
               (case readPack Ts rs of
                  (Inl e, rs1) \<Rightarrow> (Inl e, rs1)
                | (Inr tup, rs1) \<Rightarrow>
                    (case step rs1 of
                       (Inl e, rs2) \<Rightarrow> (Inl e, rs2)
                     | (Inr _, rs2) \<Rightarrow> (Inr (Some tup), rs2))))"

section \<open>Connection: the one-shot query\<close>

text \<open>
  \<^verbatim>\<open>sqlite3_exec\<close> runs the statements of the query text, calls the callback once per
  result row with the column count, the values (a null pointer for SQL NULL) and the
  names, and hands back an error message through its last argument: a null pointer when
  nothing went wrong. The layer does not look at the result code. An outcome of the engine
  is therefore the rows it reported, in order, and the message pointer.
\<close>

type_synonym callback_args = "(string \<times> string option) list"

record exec_outcome =
  reported :: "callback_args list"
  error_ptr :: "string option"

record Connection =
  errorMsg :: string
  results :: "(string \<times> string) list list"

definition fixNullStr :: "string option \<Rightarrow> string" where
  "fixNullStr str = (case str of None \<Rightarrow> [] | Some s \<Rightarrow> s)"

text \<open>
  The callback receives \<^verbatim>\<open>count\<close>, \<^verbatim>\<open>values\<close> and \<^verbatim>\<open>names\<close>; its loop pairs
  \<^verbatim>\<open>names[i]\<close> with \<^verbatim>\<open>fixNullStr(values[i])\<close> for each \<open>i < count\<close>. The arguments are
  modelled as the list of these \<open>count\<close> pairs. It always returns 0, so the engine never
  stops because of it.
\<close>

definition processSqlite3Callback :: "Connection \<Rightarrow> callback_args \<Rightarrow> Connection" where
  "processSqlite3Callback conn args =
     conn\<lparr>results := results conn @ [map (\<lambda>(n, v). (n, fixNullStr v)) args]\<rparr>"

definition sqlite3_exec :: "exec_outcome \<Rightarrow> Connection \<Rightarrow> string option \<times> Connection" where
  "sqlite3_exec out conn = (error_ptr out, foldl processSqlite3Callback conn (reported out))"

definition quickQuery ::
  "(string \<Rightarrow> exec_outcome) \<Rightarrow> Connection \<Rightarrow> string
     \<Rightarrow> (error + (string \<times> string) list list) \<times> Connection" where
  "quickQuery engine conn0 queryStr =
     (let conn1 = conn0\<lparr>results := []\<rparr>;
          (err, conn2) = sqlite3_exec (engine queryStr) conn1;
          conn3 = conn2\<lparr>errorMsg := fixNullStr err\<rparr>
      in if errorMsg conn3 \<noteq> [] then (Inl (QuickQueryError (errorMsg conn3)), conn3)
         else (Inr (results conn3), conn3))"

section \<open>Notions used to state the properties\<close>

text \<open>The display text of a cell: its bytes, and the empty string for SQL NULL.\<close>

definition cell_text :: "cell \<Rightarrow> string" where
  "cell_text c = (case c of Null \<Rightarrow> [] | Value _ bs _ _ _ \<Rightarrow> bs)"

definition ncols :: "Resultset \<Rightarrow> nat" where
  "ncols rs = length (col_names (rstmnt rs))"

text \<open>Column \<open>i\<close> of the row the statement is positioned at, as a name and value pair.\<close>

definition column_field :: "Resultset \<Rightarrow> nat \<Rightarrow> string \<times> string" where
  "column_field rs i = (col_names (rstmnt rs) ! i, cell_text (cell_at (rstmnt rs) (int i)))"

text \<open>
  What the constructor establishes and the methods keep for as long as no step of the
  engine fails: there is one \<^verbatim>\<open>ResultColumn\<close> per declared column, the \<open>i\<close>-th at position
  \<open>i\<close>, and \<^verbatim>\<open>hasRow\<close> is only set while the statement is positioned at a row. (A failed
  step throws out of \<^verbatim>\<open>step()\<close> before \<^verbatim>\<open>hasRow\<close> is touched.)
\<close>

definition wf :: "Resultset \<Rightarrow> bool" where
  "wf rs \<longleftrightarrow>
     map posn (columns rs) = indices (int (length (col_names (rstmnt rs))))
     \<and> (hasRow rs \<longrightarrow> current (rstmnt rs) \<noteq> None)"

text \<open>The cursor after \<open>k\<close> calls of \<^verbatim>\<open>nextField\<close>, whatever each call returned or threw.\<close>

definition nextField_times :: "nat \<Rightarrow> Resultset \<Rightarrow> Resultset" where
  "nextField_times k rs = ((\<lambda>r. snd (nextField r)) ^^ k) rs"

text \<open>
  The positions at which a pack of types is read when the sequential cursor stands at
  \<open>columnPosn\<close>: the \<open>j\<close>-th type at \<open>columnPosn + j\<close>.
\<close>

definition shifted :: "Resultset \<Rightarrow> rtype list \<Rightarrow> (rtype \<times> int) list" where
  "shifted rs Ts = zip Ts (map (\<lambda>j. columnPosn rs + int j) [0..<length Ts])"

section \<open>Example statements\<close>

text \<open>
  Statements in the shape of those of the repository's tests: one with two placeholders,
  and a two-column query with the rows \<open>('row41', 4)\<close> and \<open>('row91', NULL)\<close>.
\<close>

definition no_files :: filesystem where
  "no_files = (\<lambda>_. None)"

definition two_param_stmt :: stmt where
  "two_param_stmt =
     \<lparr>param_count = 2, slots = (\<lambda>_. None), bind_rc = (\<lambda>_ _. 0), reset_rc = 0,
      col_names = [''text_col_key'', ''int_col''], current = None,
      script = [], calls = []\<rparr>"

definition text_cell :: "string \<Rightarrow> cell" where
  "text_cell s = Value TEXT s 0 0 0"

definition int_cell :: "string \<Rightarrow> int \<Rightarrow> cell" where
  "int_cell s n = Value INTEGER s n n (of_int n)"

definition two_rows_stmt :: stmt where
  "two_rows_stmt =
     \<lparr>param_count = 0, slots = (\<lambda>_. None), bind_rc = (\<lambda>_ _. 0), reset_rc = 0,
      col_names = [''text_col_key'', ''int_col''], current = None,
      script = [StepRow [text_cell ''row41'', int_cell ''4'' 4],
                StepRow [text_cell ''row91'', Null]],
      calls = []\<rparr>"

text \<open>The cursor the constructor gives on that query: positioned at the first row.\<close>

definition two_rows_cursor :: Resultset where
  "two_rows_cursor =
     \<lparr>rstmnt = two_rows_stmt
        \<lparr>current := Some [text_cell ''row41'', int_cell ''4'' 4],
         script := [StepRow [text_cell ''row91'', Null]],
         calls := [CallStep]\<rparr>,
      hasRow = True, columnPosn = 0,
      columns = [\<lparr>posn = 0, type = SQLITE_TEXT\<rparr>, \<lparr>posn = 1, type = SQLITE_INTEGER\<rparr>]\<rparr>"

text \<open>
  The five bytes of the test string \<^verbatim>\<open>"H\<yen>\0l"\<close> (the yen sign is two bytes in UTF-8), and
  a file system with one readable file of that content, one file whose read fails, and
  nothing else.
\<close>

definition hyl :: string where
  "hyl = [CHR ''H'', CHR 0xC2, CHR 0xA5, CHR 0x00, CHR ''l'']"

definition one_file :: filesystem where
  "one_file = (\<lambda>p. if p = ''Test.jpg'' then Some (File hyl True)
                    else if p = ''Broken.jpg'' then Some (File hyl False)
                    else None)"

text \<open>The rows a one-shot query returns: the callback's rendering of each reported row.\<close>

definition render :: "callback_args \<Rightarrow> (string \<times> string) list" where
  "render args = map (\<lambda>(n, v). (n, fixNullStr v)) args"

text \<open>
  An engine for the one-shot query: a select that reports two rows, the second with SQL
  NULL, and any other text failing after one reported row; and a connection that still
  holds a row of an earlier query.
\<close>

definition demo_engine :: "string \<Rightarrow> exec_outcome" where
  "demo_engine q =
     (if q = ''SELECT int_col FROM Test''
      then \<lparr>reported = [[(''int_col'', Some ''4'')], [(''int_col'', None)]], error_ptr = None\<rparr>
      else \<lparr>reported = [[(''n'', Some ''1'')]],
            error_ptr = Some ''UNIQUE constraint failed: Test.text_col_key''\<rparr>)"

definition stale_conn :: Connection where
  "stale_conn = \<lparr>errorMsg = [], results = [[(''old'', ''row'')]]\<rparr>"

definition no_rows_stmt :: stmt where
  "no_rows_stmt = two_rows_stmt\<lparr>script := []\<rparr>"

text \<open>The cursor the constructor gives on the same query when it selects no row.\<close>

definition exhausted_cursor :: Resultset where
  "exhausted_cursor =
     \<lparr>rstmnt = no_rows_stmt\<lparr>calls := [CallStep]\<rparr>,
      hasRow = False, columnPosn = 0,
      columns = [\<lparr>posn = 0, type = SQLITE_NULL\<rparr>, \<lparr>posn = 1, type = SQLITE_NULL\<rparr>]\<rparr>"

text \<open>
  A string of \<open>2\<^sup>3\<^sup>1\<close> zero bytes, one more than the largest \<^verbatim>\<open>int\<close>, and a file system with
  one file that has it as content and one directory.
\<close>

definition big_blob :: string where
  "big_blob = replicate (2 ^ 31) NUL"

definition big_file :: filesystem where
  "big_file = (\<lambda>p. if p = ''Big.bin'' then Some (File big_blob True)
                    else if p = ''stuff'' then Some NoSize
                    else None)"



section \<open>Basic facts\<close>

lemma readText_cell: "readText c st = cell_text (cell_at st (posn c))"
  by (simp add: readText_def string_of_def sqlite3_column_text_def sqlite3_column_bytes_def
      cell_text_def split: cell.splits)

lemma readBlob_cell: "readBlob c st = cell_text (cell_at st (posn c))"
  by (simp add: readBlob_def string_of_def sqlite3_column_blob_def sqlite3_column_bytes_def
      cell_text_def split: cell.splits)

lemma step_columns: "columns (snd (step rs)) = columns rs"
  by (simp add: step_def Let_def split: prod.splits)

lemma step_rstmnt: "rstmnt (snd (step rs)) = snd (sqlite3_step (rstmnt rs))"
  by (simp add: step_def Let_def split: prod.splits)

lemma sqlite3_step_col_names: "col_names (snd (sqlite3_step st)) = col_names st"
  by (simp add: sqlite3_step_def Let_def split: list.splits step_result.splits)

lemma step_hasRow_current:
  "fst (step rs) = Inr () \<Longrightarrow> hasRow (snd (step rs)) \<Longrightarrow> current (rstmnt (snd (step rs))) \<noteq> None"
  by (auto simp add: step_def sqlite3_step_def Let_def SQLITE_DONE_def SQLITE_ROW_def
      failure_code_def SQLITE_ERROR_def
      split: prod.splits list.splits step_result.splits if_splits)

lemma step_wf: "wf rs \<Longrightarrow> fst (step rs) = Inr () \<Longrightarrow> wf (snd (step rs))"
  unfolding wf_def
  using step_hasRow_current[of rs]
  by (simp add: step_columns step_rstmnt sqlite3_step_col_names)

lemma map_posn_new:
  "map posn (map (\<lambda>i. ResultColumn_new st (int i)) [0..<n]) = map int [0..<n]"
  by (simp add: ResultColumn_new_def)

lemma Resultset_new_wf:
  assumes "Resultset_new st = Inr rs"
  shows "wf rs \<and> columnPosn rs = 0 \<and> col_names (rstmnt rs) = col_names st
    \<and> rstmnt rs = snd (sqlite3_step st)"
proof -
  let ?rs0 = "\<lparr>rstmnt = st, hasRow = False, columnPosn = 0, columns = []\<rparr>"
  obtain r rs1 where s: "step ?rs0 = (r, rs1)" by (cases "step ?rs0")
  with assms obtain u where r: "r = Inr u"
    by (cases r) (auto simp add: Resultset_new_def)
  from s r assms have rs: "rs = rs1\<lparr>columns :=
      map (\<lambda>i. ResultColumn_new (rstmnt rs1) (int i)) [0..<nat (countColumns rs1)]\<rparr>"
    by (simp add: Resultset_new_def)
  have st1: "rstmnt rs1 = snd (sqlite3_step st)"
    using step_rstmnt[of ?rs0] s by simp
  have cn: "col_names (rstmnt rs1) = col_names st"
    by (simp add: st1 sqlite3_step_col_names)
  have cp: "columnPosn rs1 = 0"
    using s by (auto simp add: step_def Let_def split: prod.splits if_splits)
  have hr: "hasRow rs1 \<longrightarrow> current (rstmnt rs1) \<noteq> None"
    using step_hasRow_current[of ?rs0] s r by simp
  show ?thesis
    unfolding wf_def
    using hr cp cn st1
    by (simp add: rs ResultColumn_new_def countColumns_def sqlite3_column_count_def indices_def)
qed


lemma wf_length: "wf rs \<Longrightarrow> length (columns rs) = ncols rs"
proof -
  assume "wf rs"
  then have "length (map posn (columns rs)) = length (indices (int (ncols rs)))"
    by (simp add: wf_def ncols_def)
  then show ?thesis by (simp add: indices_def)
qed

lemma wf_posn: "wf rs \<Longrightarrow> i < ncols rs \<Longrightarrow> posn (columns rs ! i) = int i"
proof -
  assume w: "wf rs" and i: "i < ncols rs"
  then have "map posn (columns rs) ! i = indices (int (ncols rs)) ! i"
    by (simp add: wf_def ncols_def)
  with i wf_length[OF w] show ?thesis by (simp add: indices_def)
qed

lemma vector_at_wf:
  "wf rs \<Longrightarrow> vector_at (columns rs) p =
     (if 0 \<le> p \<and> p < int (ncols rs) then Inr (columns rs ! nat p) else Inl OutOfRange)"
  by (simp add: vector_at_def wf_length)

lemma name_wf: "wf rs \<Longrightarrow> i < ncols rs \<Longrightarrow> name (columns rs ! i) (rstmnt rs) = col_names (rstmnt rs) ! i"
  by (simp add: name_def sqlite3_column_name_def wf_posn ncols_def)

lemma ResultColumn_field_wf:
  "wf rs \<Longrightarrow> i < ncols rs \<Longrightarrow> ResultColumn_field (columns rs ! i) (rstmnt rs) = column_field rs i"
  by (simp add: ResultColumn_field_def ResultColumn_fieldS_def readText_cell name_wf wf_posn
      column_field_def)

lemma field_wf:
  "wf rs \<Longrightarrow> hasRow rs \<Longrightarrow> field rs p =
     (if 0 \<le> p \<and> p < int (ncols rs) then Inr (column_field rs (nat p)) else Inl OutOfRange)"
proof (cases "0 \<le> p \<and> p < int (ncols rs)")
  case True
  assume w: "wf rs" and h: "hasRow rs"
  from True have "nat p < ncols rs" by linarith
  with w h True show ?thesis
    by (simp add: field_def vector_at_wf ResultColumn_field_wf)
next
  case False
  assume "wf rs" and "hasRow rs"
  with False show ?thesis
    by (auto simp add: field_def vector_at_wf)
qed

lemma fieldS_wf:
  "wf rs \<Longrightarrow> hasRow rs \<Longrightarrow> fieldS rs p =
     (if 0 \<le> p \<and> p < int (ncols rs) then Inr (snd (column_field rs (nat p))) else Inl OutOfRange)"
proof (cases "0 \<le> p \<and> p < int (ncols rs)")
  case True
  assume w: "wf rs" and h: "hasRow rs"
  from True have "nat p < ncols rs" by linarith
  with w h True show ?thesis
    by (simp add: fieldS_def vector_at_wf ResultColumn_fieldS_def readText_cell wf_posn
        column_field_def)
next
  case False
  assume "wf rs" and "hasRow rs"
  with False show ?thesis
    by (auto simp add: fieldS_def vector_at_wf)
qed

lemma collect_ok: "(\<And>i. i \<in> set js \<Longrightarrow> f i = Inr (g i)) \<Longrightarrow> collect f js = Inr (map g js)"
  by (induction js) simp_all

lemma countData_wf: "wf rs \<Longrightarrow> hasRow rs \<Longrightarrow> countData rs = int (ncols rs)"
  by (auto simp add: wf_def countData_def sqlite3_data_count_def ncols_def)

lemma collect_field_wf:
  assumes "wf rs" "hasRow rs"
  shows "collect (field rs) (indices (countData rs)) = Inr (map (column_field rs) [0..<ncols rs])"
proof -
  have "collect (field rs) (indices (int (ncols rs)))
          = Inr (map (\<lambda>p. column_field rs (nat p)) (indices (int (ncols rs))))"
    by (rule collect_ok) (auto simp add: field_wf[OF assms] indices_def)
  then show ?thesis
    by (simp add: countData_wf[OF assms] indices_def comp_def)
qed

lemma collect_fieldS_wf:
  assumes "wf rs" "hasRow rs"
  shows "collect (fieldS rs) (indices (countData rs))
           = Inr (map (\<lambda>i. snd (column_field rs i)) [0..<ncols rs])"
proof -
  have "collect (fieldS rs) (indices (int (ncols rs)))
          = Inr (map (\<lambda>p. snd (column_field rs (nat p))) (indices (int (ncols rs))))"
    by (rule collect_ok) (auto simp add: fieldS_wf[OF assms] indices_def)
  then show ?thesis
    by (simp add: countData_wf[OF assms] indices_def comp_def)
qed

lemma row_wf:
  assumes "wf rs" "hasRow rs"
  shows "row rs =
           (case step rs of
              (Inl e, rs1) \<Rightarrow> (Inl e, rs1)
            | (Inr _, rs1) \<Rightarrow> (Inr (Some (map (column_field rs) [0..<ncols rs])), rs1))"
  using assms by (simp add: row_def collect_field_wf)

lemma rowS_wf:
  assumes "wf rs" "hasRow rs"
  shows "rowS rs =
           (case step rs of
              (Inl e, rs1) \<Rightarrow> (Inl e, rs1)
            | (Inr _, rs1) \<Rightarrow> (Inr (Some (map (\<lambda>i. snd (column_field rs i)) [0..<ncols rs])), rs1))"
  using assms by (simp add: rowS_def collect_fieldS_wf)

lemma nextField_times_state:
  "nextField_times k rs = rs\<lparr>columnPosn := columnPosn rs + int k\<rparr>"
proof (induction k)
  case 0
  show ?case by (simp add: nextField_times_def)
next
  case (Suc k)
  have "nextField_times (Suc k) rs = snd (nextField (nextField_times k rs))"
    by (simp add: nextField_times_def)
  also have "\<dots> = rs\<lparr>columnPosn := columnPosn rs + int (Suc k)\<rparr>"
    by (simp add: Suc.IH nextField_def Let_def add.assoc)
  finally show ?case .
qed

lemma wf_columnPosn_update [simp]: "wf (rs\<lparr>columnPosn := x\<rparr>) = wf rs"
  by (simp add: wf_def)

lemma ncols_columnPosn_update [simp]: "ncols (rs\<lparr>columnPosn := x\<rparr>) = ncols rs"
  by (simp add: ncols_def)

lemma column_field_columnPosn_update [simp]:
  "column_field (rs\<lparr>columnPosn := x\<rparr>) i = column_field rs i"
  by (simp add: column_field_def)

lemma nextField_nth:
  assumes "wf rs" "hasRow rs" "columnPosn rs = 0"
  shows "fst (nextField (nextField_times k rs)) =
           (if Suc k < ncols rs then Inr (column_field rs (Suc k)) else Inl OutOfRange)"
proof -
  have "fst (nextField (nextField_times k rs))
          = field (rs\<lparr>columnPosn := int (Suc k)\<rparr>) (int (Suc k))"
    by (simp add: nextField_times_state nextField_def Let_def assms(3) add.commute)
  also have "\<dots> = (if Suc k < ncols rs then Inr (column_field rs (Suc k)) else Inl OutOfRange)"
    using assms(1,2) by (subst field_wf) (simp_all del: of_nat_Suc)
  finally show ?thesis .
qed

text \<open>Unfolding sets for evaluating the model on the example statements.\<close>

lemmas code_defs = SQLITE_OK_def SQLITE_ERROR_def SQLITE_RANGE_def
  SQLITE_ROW_def SQLITE_DONE_def
  SQLITE_INTEGER_def SQLITE_FLOAT_def SQLITE_TEXT_def SQLITE_BLOB_def SQLITE_NULL_def

lemmas engine_defs = sqlite3_step_def failure_code_def sqlite3_column_count_def
  sqlite3_data_count_def cell_at_def storage_code_def sqlite3_column_type_def
  sqlite3_column_name_def sqlite3_column_text_def sqlite3_column_blob_def
  sqlite3_column_bytes_def sqlite3_column_int_def sqlite3_column_int64_def
  sqlite3_column_double_def

lemmas cursor_defs = ResultColumn_new_def name_def string_of_def readText_def readBlob_def
  ResultColumn_fieldS_def ResultColumn_field_def read_def countColumns_def countData_def
  step_def Resultset_new_def vector_at_def Resultset_posn_def field_def fieldS_def
  fieldS_name_def field_name_def nextField_def nextFieldS_def fieldT_def fieldT_posn_def
  fieldT_name_def nextFieldT_def indices_def row_def rowS_def checkTypeCount_def rowT_def

lemmas example_defs = two_rows_stmt_def text_cell_def int_cell_def

lemma upt_2: "[0..<2] = [0, Suc 0]"
  by (simp add: upt_rec)

lemma two_rows_cursor_fresh: "Resultset_new two_rows_stmt = Inr two_rows_cursor"
  by (simp add: two_rows_cursor_def example_defs cursor_defs engine_defs code_defs upt_2)

section \<open>Binding parameters\<close>

lemmas binder_defs = Binder_new_def reset_def checkBindParamCount_def checkResult_def
  bindInt_def bindDouble_def bindText_def bindBlob_def Let_def
  sqlite3_bind_parameter_count_def sqlite3_reset_def native_bind_def sqlite3_bind_int_def
  sqlite3_bind_double_def sqlite3_bind_text_def sqlite3_bind_blob_def sqlite3_bind_null_def

lemma size_as_int_small: "length s < 2 ^ 31 \<Longrightarrow> size_as_int s = int (length s)"
proof -
  assume a: "length s < 2 ^ 31"
  have "sint (word_of_nat (length s) :: 32 word) = signed_take_bit 31 (int (length s))"
    by (simp add: signed_of_nat)
  also have "\<dots> = int (length s)"
    using a by (intro signed_take_bit_int_eq_self) auto
  finally show ?thesis by (simp add: size_as_int_def)
qed

lemma takeWhile_no_NUL: "NUL \<notin> set s \<Longrightarrow> takeWhile (\<lambda>c. c \<noteq> NUL) s = s"
  by (induction s) auto

lemma strlen_short: "NUL \<in> set s \<Longrightarrow> strlen s < length s"
  unfolding strlen_def by (induction s) auto

lemma strlen_full: "strlen s = length s \<longleftrightarrow> NUL \<notin> set s"
proof
  assume "strlen s = length s"
  then show "NUL \<notin> set s" using strlen_short[of s] by auto
next
  assume "NUL \<notin> set s"
  then have "takeWhile (\<lambda>c. c \<noteq> NUL) s = s" by (rule takeWhile_no_NUL)
  then show "strlen s = length s" unfolding strlen_def by (rule arg_cong)
qed

lemma native_bind_calls: "calls (snd (native_bind c i v st)) = calls st @ [c]"
  by (simp add: native_bind_def Let_def)

lemma native_bind_ok:
  "fst (native_bind c i v st) = 0 \<Longrightarrow> slots (snd (native_bind c i v st)) i = Some v"
  by (simp add: native_bind_def Let_def SQLITE_OK_def)

lemma checkResult_stmnt: "stmnt (snd (checkResult r b)) = snd r"
  by (simp add: checkResult_def Let_def)

lemma checkResult_ok: "fst (checkResult r b) = Inr () \<longleftrightarrow> fst r = 0"
  by (simp add: checkResult_def Let_def)

lemma bindText_calls:
  "calls (stmnt (snd (bindText s b))) = calls (stmnt b) @ [CallBindText (bindPosn b) s]"
  by (simp add: bindText_def checkResult_stmnt sqlite3_bind_text_def native_bind_calls)

lemma bindText_ok:
  "fst (bindText s b) = Inr () \<Longrightarrow>
     slots (stmnt (snd (bindText s b))) (bindPosn b) = Some (BText (takeWhile (\<lambda>c. c \<noteq> NUL) s))"
  by (simp add: bindText_def checkResult_stmnt checkResult_ok sqlite3_bind_text_def native_bind_ok)

lemma bindBlob_calls:
  "calls (stmnt (snd (bindBlob s b))) =
     calls (stmnt b) @ [CallBindBlob (bindPosn b) s (size_as_int s)]"
  by (simp add: bindBlob_def checkResult_stmnt sqlite3_bind_blob_def native_bind_calls)

lemma bindBlob_ok:
  assumes "length s < 2 ^ 31" and "fst (bindBlob s b) = Inr ()"
  shows "slots (stmnt (snd (bindBlob s b))) (bindPosn b) = Some (BBlob s)"
proof -
  have n: "size_as_int s = int (length s)" by (rule size_as_int_small[OF assms(1)])
  from assms(2) have "fst (native_bind (CallBindBlob (bindPosn b) s (int (length s)))
                           (bindPosn b) (BBlob s) (stmnt b)) = 0"
    by (simp add: bindBlob_def checkResult_ok sqlite3_bind_blob_def n)
  then show ?thesis
    by (simp add: bindBlob_def checkResult_stmnt sqlite3_bind_blob_def n native_bind_ok)
qed

text \<open>
  C1. When the number of values passed to \<^verbatim>\<open>setParams\<close> differs from the number of
  placeholders of the statement, the call fails with the arity error, "too many" when
  there are more values than placeholders and "too few" otherwise, and the binder and
  its statement are exactly as before the call: no slot has changed and the log of native
  calls has no new entry, so neither a reset nor a bind was issued.
\<close>

theorem setParams_arity_mismatch:
  assumes "length vals \<noteq> param_count (stmnt b)"
  shows "setParams fs vals b =
           (Inl (if length vals > param_count (stmnt b) then TooManyBindParams
                 else TooFewBindParams), b)"
  using assms
  by (simp add: setParams_def checkBindParamCount_def sqlite3_bind_parameter_count_def)

theorem setParams_arity_mismatch_witness:
  "setParams no_files [PInt 3, PInt 5, PInt 7] (Binder_new two_param_stmt)
     = (Inl TooManyBindParams, Binder_new two_param_stmt)
   \<and> setParams no_files [PInt 3] (Binder_new two_param_stmt)
     = (Inl TooFewBindParams, Binder_new two_param_stmt)"
  using setParams_arity_mismatch [of "[PInt 3, PInt 5, PInt 7]" "Binder_new two_param_stmt" no_files]
        setParams_arity_mismatch [of "[PInt 3]" "Binder_new two_param_stmt" no_files]
  by (simp add: Binder_new_def two_param_stmt_def)

text \<open>
  A \<^verbatim>\<open>std::string\<close> parameter goes to the engine by exactly one native call. Its C-string
  length equals its byte length exactly when it holds no zero byte; then the call is
  \<^verbatim>\<open>sqlite3_bind_text\<close> on its data, and otherwise it is \<^verbatim>\<open>sqlite3_bind_blob\<close> on its data
  with \<^verbatim>\<open>static_cast<int>(param.size())\<close> as the byte count. For a string shorter than
  \<open>2\<^sup>3\<^sup>1\<close> bytes the conversion is exact, and an accepted call leaves the whole string in
  the placeholder.
\<close>

lemma bind_string_dispatch:
  "(strlen s = length s \<longleftrightarrow> NUL \<notin> set s)
   \<and> calls (stmnt (snd (bind fs (PString s) b))) =
       calls (stmnt b) @
         [if NUL \<notin> set s then CallBindText (bindPosn b + 1) s
          else CallBindBlob (bindPosn b + 1) s (size_as_int s)]
   \<and> (length s < 2 ^ 31 \<longrightarrow> size_as_int s = int (length s))
   \<and> (length s < 2 ^ 31 \<and> fst (bind fs (PString s) b) = Inr () \<longrightarrow>
        slots (stmnt (snd (bind fs (PString s) b))) (bindPosn b + 1) =
          Some (if NUL \<notin> set s then BText s else BBlob s))"
proof (intro conjI impI)
  show "strlen s = length s \<longleftrightarrow> NUL \<notin> set s" by (rule strlen_full)
next
  show "calls (stmnt (snd (bind fs (PString s) b))) =
       calls (stmnt b) @
         [if NUL \<notin> set s then CallBindText (bindPosn b + 1) s
          else CallBindBlob (bindPosn b + 1) s (size_as_int s)]"
    by (simp add: strlen_full bindText_calls bindBlob_calls)
next
  assume "length s < 2 ^ 31"
  then show "size_as_int s = int (length s)" by (rule size_as_int_small)
next
  assume a: "length s < 2 ^ 31 \<and> fst (bind fs (PString s) b) = Inr ()"
  show "slots (stmnt (snd (bind fs (PString s) b))) (bindPosn b + 1) =
          Some (if NUL \<notin> set s then BText s else BBlob s)"
  proof (cases "NUL \<in> set s")
    case True
    with a bindBlob_ok[of s "b\<lparr>bindPosn := bindPosn b + 1\<rparr>"] show ?thesis
      by (simp add: strlen_full)
  next
    case False
    with a bindText_ok[of s "b\<lparr>bindPosn := bindPosn b + 1\<rparr>"] show ?thesis
      by (simp add: strlen_full takeWhile_no_NUL)
  qed
qed


lemma bind_string_dispatch_example:
  "slots (stmnt (snd (bind no_files (PString hyl) (Binder_new two_param_stmt)))) 1
     = Some (BBlob hyl)
   \<and> calls (stmnt (snd (bind no_files (PString hyl) (Binder_new two_param_stmt))))
     = [CallBindBlob 1 hyl 5]
   \<and> slots (stmnt (snd (bind no_files (PString ''row41'') (Binder_new two_param_stmt)))) 1
     = Some (BText ''row41'')
   \<and> calls (stmnt (snd (bind no_files (PString ''row41'') (Binder_new two_param_stmt))))
     = [CallBindText 1 ''row41'']"
proof -
  let ?b = "Binder_new two_param_stmt"
  note T1 = bind_string_dispatch[of hyl no_files ?b]
  note T2 = bind_string_dispatch[of "''row41''" no_files ?b]
  have l1: "length hyl < 2 ^ 31" by (simp add: hyl_def)
  have z1: "size_as_int hyl = 5" using T1 l1 by (simp add: hyl_def)
  have n1: "NUL \<in> set hyl" by (simp add: hyl_def NUL_def)
  have n2: "NUL \<notin> set ''row41''" by (simp add: NUL_def)
  have s1: "strlen hyl \<noteq> length hyl" using T1 n1 by blast
  have s2: "strlen ''row41'' = length ''row41''" using T2 n2 by blast
  have o1: "fst (bind no_files (PString hyl) ?b) = Inr ()"
    using s1 by (simp add: z1 binder_defs two_param_stmt_def SQLITE_OK_def)
  have o2: "fst (bind no_files (PString ''row41'') ?b) = Inr ()"
    using s2 by (simp add: binder_defs two_param_stmt_def SQLITE_OK_def)
  have p: "bindPosn ?b + 1 = 1" "calls (stmnt ?b) = []"
    by (simp_all add: Binder_new_def two_param_stmt_def)
  from T1 l1 o1 have "slots (stmnt (snd (bind no_files (PString hyl) ?b))) (bindPosn ?b + 1)
      = Some (if NUL \<notin> set hyl then BText hyl else BBlob hyl)" by blast
  with n1 p have c1: "slots (stmnt (snd (bind no_files (PString hyl) ?b))) 1 = Some (BBlob hyl)"
    by (simp del: bind.simps)
  from T1 n1 z1 p have c2: "calls (stmnt (snd (bind no_files (PString hyl) ?b)))
      = [CallBindBlob 1 hyl 5]"
    by (simp del: bind.simps)
  have l2: "length ''row41'' < (2::nat) ^ 31" by simp
  from T2 l2 o2 have "slots (stmnt (snd (bind no_files (PString ''row41'') ?b))) (bindPosn ?b + 1)
      = Some (if NUL \<notin> set ''row41'' then BText ''row41'' else BBlob ''row41'')" by blast
  with n2 p have c3: "slots (stmnt (snd (bind no_files (PString ''row41'') ?b))) 1
      = Some (BText ''row41'')"
    by (simp del: bind.simps)
  from T2 have "calls (stmnt (snd (bind no_files (PString ''row41'') ?b))) =
       calls (stmnt ?b) @
         [if NUL \<notin> set ''row41'' then CallBindText (bindPosn ?b + 1) ''row41''
          else CallBindBlob (bindPosn ?b + 1) ''row41'' (size_as_int ''row41'')]" by blast
  with n2 p have c4: "calls (stmnt (snd (bind no_files (PString ''row41'') ?b)))
      = [CallBindText 1 ''row41'']"
    by (simp del: bind.simps)
  from c1 c2 c3 c4 show ?thesis by blast
qed

lemma big_blob_length: "length big_blob = 2 ^ 31"
  by (simp only: big_blob_def length_replicate)

lemma big_blob_NUL: "NUL \<in> set big_blob"
proof -
  have "(2::nat) ^ 31 \<noteq> 0" by simp
  then have "set (replicate (2 ^ 31) NUL) = {NUL}" by (rule set_replicate)
  then show ?thesis by (simp only: big_blob_def insertI1)
qed

lemma big_blob_size: "size_as_int big_blob = - (2 ^ 31)"
proof -
  have "sint (word_of_nat (2 ^ 31) :: 32 word) = - (2 ^ 31)"
    by (simp add: signed_of_nat signed_take_bit_eq_take_bit_minus take_bit_eq_mod)
  then show ?thesis by (simp only: size_as_int_def big_blob_length)
qed

lemma big_blob_text: "takeWhile (\<lambda>c. c \<noteq> NUL) big_blob = []"
  by (simp only: big_blob_def takeWhile_replicate) simp

lemma bindBlob_big_blob:
  assumes "bindPosn b = 1" and "param_count (stmnt b) = 2" and "bind_rc (stmnt b) = (\<lambda>_ _. 0)"
  shows "fst (bindBlob big_blob b) = Inr ()"
    and "calls (stmnt (snd (bindBlob big_blob b)))
           = calls (stmnt b) @ [CallBindBlob 1 big_blob (- (2 ^ 31))]"
    and "slots (stmnt (snd (bindBlob big_blob b))) 1 = Some (BText [])"
  using assms
  by (simp_all add: bindBlob_def checkResult_def sqlite3_bind_blob_def native_bind_def
      big_blob_size big_blob_text SQLITE_OK_def Let_def)

text \<open>
  C6. A string of \<open>2\<^sup>3\<^sup>1\<close> zero bytes holds a zero byte, so \<^verbatim>\<open>bind\<close> takes the blob branch.
  The byte count \<^verbatim>\<open>static_cast<int>(param.size())\<close> wraps to \<open>-2\<^sup>3\<^sup>1\<close>; the engine accepts the
  call, \<^verbatim>\<open>bind\<close> returns normally, and the placeholder holds an empty text instead of the
  \<open>2\<^sup>3\<^sup>1\<close> bytes as a blob.
\<close>

theorem bind_string_count_wraps:
  "NUL \<in> set big_blob
   \<and> length big_blob = 2 ^ 31
   \<and> fst (bind no_files (PString big_blob) (Binder_new two_param_stmt)) = Inr ()
   \<and> calls (stmnt (snd (bind no_files (PString big_blob) (Binder_new two_param_stmt))))
       = [CallBindBlob 1 big_blob (- (2 ^ 31))]
   \<and> slots (stmnt (snd (bind no_files (PString big_blob) (Binder_new two_param_stmt)))) 1
       = Some (BText [])"
proof -
  let ?b = "Binder_new two_param_stmt"
  let ?b1 = "?b\<lparr>bindPosn := 1\<rparr>"
  have s: "strlen big_blob \<noteq> length big_blob"
    using strlen_full[of big_blob] big_blob_NUL by blast
  have p: "bindPosn ?b + 1 = 1" by (simp add: Binder_new_def)
  have b: "bind no_files (PString big_blob) ?b = bindBlob big_blob ?b1"
    using s p by simp
  have q: "bindPosn ?b1 = 1" "param_count (stmnt ?b1) = 2" "bind_rc (stmnt ?b1) = (\<lambda>_ _. 0)"
    "calls (stmnt ?b1) = []"
    by (simp_all add: Binder_new_def two_param_stmt_def)
  from bindBlob_big_blob[OF q(1,2,3)] q(4) big_blob_NUL big_blob_length
  show ?thesis by (simp only: b) simp
qed

text \<open>
  A file-path parameter: when the file cannot be opened, \<^verbatim>\<open>bind\<close> fails with the error that
  carries the path; when the path opens without a usable size, the construction of the
  buffer throws; when the file opens and the read of its content reports failure, \<^verbatim>\<open>bind\<close>
  returns normally with no native call made and nothing bound (only the position counter
  has advanced); otherwise the one native call is \<^verbatim>\<open>sqlite3_bind_blob\<close> on the content of
  the file, with the content's size converted to \<^verbatim>\<open>int\<close> as the count, and for a content
  shorter than \<open>2\<^sup>3\<^sup>1\<close> bytes an accepted call leaves the whole content in the placeholder.
\<close>

lemma bind_path_cases:
  "(fs p = None \<longrightarrow>
      bind fs (PPath p) b = (Inl (InvalidFilePath p), b\<lparr>bindPosn := bindPosn b + 1\<rparr>))
   \<and> (fs p = Some NoSize \<longrightarrow>
        bind fs (PPath p) b = (Inl LengthError, b\<lparr>bindPosn := bindPosn b + 1\<rparr>))
   \<and> (\<forall>str. fs p = Some (File str False) \<longrightarrow>
        bind fs (PPath p) b = (Inr (), b\<lparr>bindPosn := bindPosn b + 1\<rparr>))
   \<and> (\<forall>str. fs p = Some (File str True) \<longrightarrow>
        calls (stmnt (snd (bind fs (PPath p) b))) =
          calls (stmnt b) @ [CallBindBlob (bindPosn b + 1) str (size_as_int str)]
        \<and> (length str < 2 ^ 31 \<and> fst (bind fs (PPath p) b) = Inr () \<longrightarrow>
             slots (stmnt (snd (bind fs (PPath p) b))) (bindPosn b + 1) = Some (BBlob str)))"
proof (intro conjI allI impI)
  assume "fs p = None"
  then show "bind fs (PPath p) b = (Inl (InvalidFilePath p), b\<lparr>bindPosn := bindPosn b + 1\<rparr>)"
    by simp
next
  assume "fs p = Some NoSize"
  then show "bind fs (PPath p) b = (Inl LengthError, b\<lparr>bindPosn := bindPosn b + 1\<rparr>)"
    by simp
next
  fix str assume "fs p = Some (File str False)"
  then show "bind fs (PPath p) b = (Inr (), b\<lparr>bindPosn := bindPosn b + 1\<rparr>)"
    by simp
next
  fix str assume "fs p = Some (File str True)"
  then show "calls (stmnt (snd (bind fs (PPath p) b))) =
          calls (stmnt b) @ [CallBindBlob (bindPosn b + 1) str (size_as_int str)]"
    by (simp add: bindBlob_calls)
next
  fix str
  assume a: "fs p = Some (File str True)"
    and b: "length str < 2 ^ 31 \<and> fst (bind fs (PPath p) b) = Inr ()"
  with bindBlob_ok[of str "b\<lparr>bindPosn := bindPosn b + 1\<rparr>"]
  show "slots (stmnt (snd (bind fs (PPath p) b))) (bindPosn b + 1) = Some (BBlob str)"
    by simp
qed

lemma bind_path_cases_example:
  "bind one_file (PPath ''Missing.jpg'') (Binder_new two_param_stmt)
     = (Inl (InvalidFilePath ''Missing.jpg''), (Binder_new two_param_stmt)\<lparr>bindPosn := 1\<rparr>)
   \<and> bind one_file (PPath ''Broken.jpg'') (Binder_new two_param_stmt)
     = (Inr (), (Binder_new two_param_stmt)\<lparr>bindPosn := 1\<rparr>)
   \<and> calls (stmnt (snd (bind one_file (PPath ''Test.jpg'') (Binder_new two_param_stmt))))
     = [CallBindBlob 1 hyl 5]
   \<and> slots (stmnt (snd (bind one_file (PPath ''Test.jpg'') (Binder_new two_param_stmt)))) 1
     = Some (BBlob hyl)"
proof -
  let ?b = "Binder_new two_param_stmt"
  note T0 = bind_path_cases[of one_file "''Missing.jpg''" ?b]
  note T1 = bind_path_cases[of one_file "''Broken.jpg''" ?b]
  note T2 = bind_path_cases[of one_file "''Test.jpg''" ?b]
  have f0: "one_file ''Missing.jpg'' = None" by (simp add: one_file_def)
  have f1: "one_file ''Broken.jpg'' = Some (File hyl False)" by (simp add: one_file_def)
  have f2: "one_file ''Test.jpg'' = Some (File hyl True)" by (simp add: one_file_def)
  have l: "length hyl < 2 ^ 31" by (simp add: hyl_def)
  have z: "size_as_int hyl = 5" using size_as_int_small[OF l] by (simp add: hyl_def)
  have p: "bindPosn ?b + 1 = 1" "calls (stmnt ?b) = []"
    by (simp_all add: Binder_new_def two_param_stmt_def)
  have o: "fst (bind one_file (PPath ''Test.jpg'') ?b) = Inr ()"
    by (simp add: f2 z binder_defs two_param_stmt_def SQLITE_OK_def)
  from T0 f0 p have c0: "bind one_file (PPath ''Missing.jpg'') ?b
     = (Inl (InvalidFilePath ''Missing.jpg''), ?b\<lparr>bindPosn := 1\<rparr>)" by simp
  from T1 f1 p have c1: "bind one_file (PPath ''Broken.jpg'') ?b
     = (Inr (), ?b\<lparr>bindPosn := 1\<rparr>)" by simp
  from T2 f2 p l z o have c2: "calls (stmnt (snd (bind one_file (PPath ''Test.jpg'') ?b)))
     = [CallBindBlob 1 hyl 5]"
    and c3: "slots (stmnt (snd (bind one_file (PPath ''Test.jpg'') ?b))) 1 = Some (BBlob hyl)"
    by simp_all
  from c0 c1 c2 c3 show ?thesis by simp
qed

text \<open>
  C8. A readable file of \<open>2\<^sup>3\<^sup>1\<close> zero bytes: its content goes to \<^verbatim>\<open>sqlite3_bind_blob\<close> with
  the byte count \<open>-2\<^sup>3\<^sup>1\<close>, the wrapped \<^verbatim>\<open>static_cast<int>\<close> of its size; the engine accepts
  the call, \<^verbatim>\<open>bind\<close> returns normally, and the placeholder holds an empty text instead of
  the file's content as a blob. And a path that opens without a usable size, a directory,
  is neither skipped nor bound nor reported as an I/O error that names the path: the
  construction of the buffer throws.
\<close>

theorem bind_path_count_wraps:
  "big_file ''Big.bin'' = Some (File big_blob True)
   \<and> length big_blob = 2 ^ 31
   \<and> fst (bind big_file (PPath ''Big.bin'') (Binder_new two_param_stmt)) = Inr ()
   \<and> calls (stmnt (snd (bind big_file (PPath ''Big.bin'') (Binder_new two_param_stmt))))
       = [CallBindBlob 1 big_blob (- (2 ^ 31))]
   \<and> slots (stmnt (snd (bind big_file (PPath ''Big.bin'') (Binder_new two_param_stmt)))) 1
       = Some (BText [])
   \<and> big_file ''stuff'' = Some NoSize
   \<and> fst (bind big_file (PPath ''stuff'') (Binder_new two_param_stmt)) = Inl LengthError"
proof -
  let ?b = "Binder_new two_param_stmt"
  let ?b1 = "?b\<lparr>bindPosn := 1\<rparr>"
  have f: "big_file ''Big.bin'' = Some (File big_blob True)"
    and d: "big_file ''stuff'' = Some NoSize"
    by (simp_all add: big_file_def)
  have p: "bindPosn ?b + 1 = 1" by (simp add: Binder_new_def)
  have b: "bind big_file (PPath ''Big.bin'') ?b = bindBlob big_blob ?b1"
    using f p by simp
  have e: "fst (bind big_file (PPath ''stuff'') ?b) = Inl LengthError"
    using d by simp
  have q: "bindPosn ?b1 = 1" "param_count (stmnt ?b1) = 2" "bind_rc (stmnt ?b1) = (\<lambda>_ _. 0)"
    "calls (stmnt ?b1) = []"
    by (simp_all add: Binder_new_def two_param_stmt_def)
  from bindBlob_big_blob[OF q(1,2,3)] q(4) f d e big_blob_length
  show ?thesis by (simp only: b) simp
qed

section \<open>Sequential field access\<close>

text \<open>
  C7. On a cursor fresh from the constructor and positioned at a row of \<open>N\<close> columns, the
  \<open>k\<close>-th call of \<^verbatim>\<open>nextField\<close> returns column \<open>k\<close> of that row for every \<open>1 \<le> k < N\<close>, so
  the first call returns column 1 and column 0 is never returned, and the \<open>N\<close>-th call
  fails with the out-of-range error.
\<close>

theorem nextField_sequence:
  assumes "Resultset_new st = Inr rs" and "hasRow rs"
  shows "(\<forall>k. 1 \<le> k \<and> k < ncols rs \<longrightarrow>
            fst (nextField (nextField_times (k - 1) rs)) = Inr (column_field rs k))
       \<and> (1 \<le> ncols rs \<longrightarrow>
            fst (nextField (nextField_times (ncols rs - 1) rs)) = Inl OutOfRange)"
proof -
  from assms(1) have w: "wf rs" and c: "columnPosn rs = 0"
    using Resultset_new_wf by blast+
  show ?thesis
    using nextField_nth[OF w assms(2) c] by simp
qed

theorem nextField_sequence_witness:
  "Resultset_new two_rows_stmt = Inr two_rows_cursor
   \<and> hasRow two_rows_cursor
   \<and> ncols two_rows_cursor = 2
   \<and> fst (nextField two_rows_cursor) = Inr (''int_col'', ''4'')
   \<and> fst (nextField (snd (nextField two_rows_cursor))) = Inl OutOfRange"
proof -
  have h: "hasRow two_rows_cursor" by (simp add: two_rows_cursor_def)
  have n: "ncols two_rows_cursor = 2"
    by (simp add: ncols_def two_rows_cursor_def two_rows_stmt_def)
  have t0: "nextField_times 0 two_rows_cursor = two_rows_cursor"
    by (simp add: nextField_times_def)
  have t1: "nextField_times (Suc 0) two_rows_cursor = snd (nextField two_rows_cursor)"
    by (simp add: nextField_times_def)
  have f: "column_field two_rows_cursor (Suc 0) = (''int_col'', ''4'')"
    by (simp add: column_field_def two_rows_cursor_def example_defs cell_at_def cell_text_def)
  from nextField_sequence[OF two_rows_cursor_fresh h]
  have "fst (nextField (nextField_times 0 two_rows_cursor)) = Inr (column_field two_rows_cursor 1)"
    and "fst (nextField (nextField_times (2 - 1) two_rows_cursor)) = Inl OutOfRange"
    using n by simp_all
  with two_rows_cursor_fresh h n t0 t1 f show ?thesis by simp
qed

section \<open>The one-shot query\<close>

lemma callbacks_results:
  "results (foldl processSqlite3Callback conn rows) = results conn @ map render rows"
  by (induction rows arbitrary: conn) (simp_all add: processSqlite3Callback_def render_def)

lemma quickQuery_fst:
  "fst (quickQuery engine conn q) =
     (if fixNullStr (error_ptr (engine q)) \<noteq> []
      then Inl (QuickQueryError (fixNullStr (error_ptr (engine q))))
      else Inr (map render (reported (engine q))))"
  by (simp add: quickQuery_def sqlite3_exec_def Let_def callbacks_results)

text \<open>
  C9. The outcome of \<^verbatim>\<open>quickQuery\<close> does not depend on the rows the connection held from
  an earlier call. When the engine hands back an error message, the call fails with the
  query error carrying that message and returns no table, whatever rows were reported
  before the failure; when it hands back none, the table returned holds exactly the rows
  reported during this call, in order.
\<close>

theorem quickQuery_fresh_table_or_error:
  "fst (quickQuery engine (conn\<lparr>results := old\<rparr>) q) = fst (quickQuery engine conn q)
   \<and> (\<forall>msg. error_ptr (engine q) = Some msg \<and> msg \<noteq> [] \<longrightarrow>
         fst (quickQuery engine conn q) = Inl (QuickQueryError msg))
   \<and> (error_ptr (engine q) = None \<or> error_ptr (engine q) = Some [] \<longrightarrow>
         fst (quickQuery engine conn q) = Inr (map render (reported (engine q))))"
  by (auto simp add: quickQuery_fst fixNullStr_def)

theorem quickQuery_fresh_table_or_error_witness:
  "fst (quickQuery demo_engine stale_conn ''SELECT int_col FROM Test'')
     = Inr [[(''int_col'', ''4'')], [(''int_col'', [])]]
   \<and> fst (quickQuery demo_engine stale_conn ''INSERT'')
     = Inl (QuickQueryError ''UNIQUE constraint failed: Test.text_col_key'')"
proof -
  note T1 = quickQuery_fresh_table_or_error[where engine = demo_engine
      and conn = stale_conn and old = "[]" and q = "''SELECT int_col FROM Test''"]
  note T2 = quickQuery_fresh_table_or_error[where engine = demo_engine
      and conn = stale_conn and old = "[]" and q = "''INSERT''"]
  have e1: "error_ptr (demo_engine ''SELECT int_col FROM Test'') = None"
    by (simp add: demo_engine_def)
  have e2: "error_ptr (demo_engine ''INSERT'') = Some ''UNIQUE constraint failed: Test.text_col_key''"
    by (simp add: demo_engine_def)
  have r1: "map render (reported (demo_engine ''SELECT int_col FROM Test''))
      = [[(''int_col'', ''4'')], [(''int_col'', [])]]"
    by (simp add: demo_engine_def render_def fixNullStr_def)
  from T1 e1 have "fst (quickQuery demo_engine stale_conn ''SELECT int_col FROM Test'')
      = Inr (map render (reported (demo_engine ''SELECT int_col FROM Test'')))" by blast
  with r1 have c1: "fst (quickQuery demo_engine stale_conn ''SELECT int_col FROM Test'')
     = Inr [[(''int_col'', ''4'')], [(''int_col'', [])]]" by simp
  from T2 e2 have c2: "fst (quickQuery demo_engine stale_conn ''INSERT'')
     = Inl (QuickQueryError ''UNIQUE constraint failed: Test.text_col_key'')" by blast
  from c1 c2 show ?thesis by blast
qed

section \<open>Typed rows and the sequential cursor\<close>

lemma fieldT_posn_columnPosn [simp]:
  "fieldT_posn T (rs\<lparr>columnPosn := x\<rparr>) p = fieldT_posn T rs p"
  by (simp add: fieldT_posn_def split: sum.splits)

lemma shifted_Cons:
  "shifted rs (T # Ts) = (T, columnPosn rs) # shifted (rs\<lparr>columnPosn := columnPosn rs + 1\<rparr>) Ts"
proof -
  have "map (\<lambda>j. columnPosn rs + int j) [0..<Suc (length Ts)]
          = columnPosn rs # map (\<lambda>j. columnPosn rs + 1 + int j) [0..<length Ts]"
    by (simp add: upt_conv_Cons map_Suc_upt[symmetric] del: upt_Suc) 
  then show ?thesis by (simp add: shifted_def)
qed

lemma readPack_Cons:
  "readPack (T # Ts) rs =
     (case fieldT_posn T rs (columnPosn rs) of
        Inl e \<Rightarrow> (Inl e, rs\<lparr>columnPosn := columnPosn rs + 1\<rparr>)
      | Inr v \<Rightarrow>
          (case fst (readPack Ts (rs\<lparr>columnPosn := columnPosn rs + 1\<rparr>)) of
             Inl e \<Rightarrow> (Inl e, snd (readPack Ts (rs\<lparr>columnPosn := columnPosn rs + 1\<rparr>)))
           | Inr vs \<Rightarrow> (Inr (v # vs), snd (readPack Ts (rs\<lparr>columnPosn := columnPosn rs + 1\<rparr>)))))"
  by (cases "readPack Ts (rs\<lparr>columnPosn := columnPosn rs + 1\<rparr>)")
     (simp add: Let_def split: sum.splits)

lemma readPack_reads:
  "fst (readPack Ts rs) = collect (\<lambda>(T, p). fieldT_posn T rs p) (shifted rs Ts)"
proof (induction Ts arbitrary: rs)
  case Nil
  show ?case by (simp add: shifted_def)
next
  case (Cons T Ts)
  let ?rs1 = "rs\<lparr>columnPosn := columnPosn rs + 1\<rparr>"
  have "fst (readPack Ts ?rs1) = collect (\<lambda>(T, p). fieldT_posn T rs p) (shifted ?rs1 Ts)"
    by (simp add: Cons.IH)
  then show ?case
    by (simp add: readPack_Cons shifted_Cons split: sum.splits del: readPack.simps)
qed

lemma readPack_frame:
  "rstmnt (snd (readPack Ts rs)) = rstmnt rs \<and> hasRow (snd (readPack Ts rs)) = hasRow rs
   \<and> columns (snd (readPack Ts rs)) = columns rs"
proof (induction Ts arbitrary: rs)
  case Nil
  show ?case by simp
next
  case (Cons T Ts)
  let ?rs1 = "rs\<lparr>columnPosn := columnPosn rs + 1\<rparr>"
  from Cons.IH[of ?rs1] show ?case
    by (simp add: readPack_Cons split: sum.splits del: readPack.simps)
qed


lemma rowT_via_readPack:
  assumes "hasRow rs" and "countData rs = int (length Ts)"
  shows "fst (rowT Ts rs) =
           (case fst (readPack Ts rs) of
              Inl e \<Rightarrow> Inl e
            | Inr tup \<Rightarrow>
                (case fst (step (snd (readPack Ts rs))) of
                   Inl e \<Rightarrow> Inl e
                 | Inr _ \<Rightarrow> Inr (Some tup)))"
  using assms
  by (cases "readPack Ts rs"; cases "step (snd (readPack Ts rs))")
     (simp add: rowT_def checkTypeCount_def split: sum.splits)

lemma rowT_failed_read:
  assumes "hasRow rs" and "countData rs = int (length Ts)" and "fst (readPack Ts rs) = Inl e"
  shows "rowT Ts rs = (Inl e, snd (readPack Ts rs))"
  using assms
  by (cases "readPack Ts rs") (simp add: rowT_def checkTypeCount_def)

lemma collect_Inr_all: "collect f xs = Inr ys \<Longrightarrow> x \<in> set xs \<Longrightarrow> \<exists>y. f x = Inr y"
  by (induction xs arbitrary: ys) (auto split: sum.splits)

lemma collect_one_error:
  assumes "\<And>x. x \<in> set xs \<Longrightarrow> (\<exists>y. f x = Inr y) \<or> f x = Inl e"
  shows "(\<exists>ys. collect f xs = Inr ys) \<or> collect f xs = Inl e"
  using assms
proof (induction xs)
  case Nil
  show ?case by simp
next
  case (Cons a xs)
  from Cons.prems have a: "(\<exists>y. f a = Inr y) \<or> f a = Inl e" by simp
  from Cons have r: "(\<exists>ys. collect f xs = Inr ys) \<or> collect f xs = Inl e" by simp
  from a r show ?case by auto
qed

lemma read_supported: "T \<noteq> TOther \<Longrightarrow> \<exists>v. read T c st = Inr v"
  by (cases T) (simp_all add: read_def)

lemma fieldT_posn_supported:
  assumes "wf rs" and "T \<noteq> TOther"
  shows "(\<exists>v. fieldT_posn T rs p = Inr v) \<or> fieldT_posn T rs p = Inl OutOfRange"
  using read_supported[OF assms(2)]
  by (simp add: fieldT_posn_def vector_at_wf[OF assms(1)])

lemma fieldT_posn_beyond:
  assumes "wf rs" and "hasRow rs" and "int (ncols rs) \<le> p"
  shows "fieldT_posn T rs p = Inl OutOfRange"
  using assms by (simp add: fieldT_posn_def vector_at_wf)

lemma shifted_last:
  assumes "Ts \<noteq> []"
  shows "(last Ts, columnPosn rs + int (length Ts - 1)) \<in> set (shifted rs Ts)"
proof -
  let ?n = "length Ts - 1"
  from assms have n: "?n < length Ts" by (cases Ts) simp_all
  then have "shifted rs Ts ! ?n = (Ts ! ?n, columnPosn rs + int ?n)"
    by (simp add: shifted_def)
  moreover have "Ts ! ?n = last Ts" using assms by (simp add: last_conv_nth)
  moreover have "?n < length (shifted rs Ts)" using n by (simp add: shifted_def)
  ultimately show ?thesis by (metis nth_mem)
qed

lemma readPack_shifted_fails:
  assumes "wf rs" and "hasRow rs" and "0 < columnPosn rs" and "Ts \<noteq> []"
    and "length Ts = ncols rs"
  shows "\<exists>e. fst (readPack Ts rs) = Inl e"
proof (cases "fst (readPack Ts rs)")
  case (Inl e)
  then show ?thesis by blast
next
  case (Inr tup)
  then have c: "collect (\<lambda>(T, p). fieldT_posn T rs p) (shifted rs Ts) = Inr tup"
    by (simp add: readPack_reads)
  from assms(3,4,5) have "int (ncols rs) \<le> columnPosn rs + int (length Ts - 1)"
    by (cases Ts) simp_all
  then have "fieldT_posn (last Ts) rs (columnPosn rs + int (length Ts - 1)) = Inl OutOfRange"
    by (rule fieldT_posn_beyond[OF assms(1,2)])
  moreover from collect_Inr_all[OF c shifted_last[OF assms(4)]]
  have "\<exists>y. fieldT_posn (last Ts) rs (columnPosn rs + int (length Ts - 1)) = Inr y"
    by simp
  ultimately show ?thesis by simp
qed

lemma readPack_supported_error:
  assumes "wf rs" and "TOther \<notin> set Ts" and "fst (readPack Ts rs) = Inl e"
  shows "e = OutOfRange"
proof -
  have "(\<exists>ys. collect (\<lambda>(T, p). fieldT_posn T rs p) (shifted rs Ts) = Inr ys)
        \<or> collect (\<lambda>(T, p). fieldT_posn T rs p) (shifted rs Ts) = Inl OutOfRange"
  proof (rule collect_one_error)
    fix x assume "x \<in> set (shifted rs Ts)"
    then have "(fst x, snd x) \<in> set (zip Ts (map (\<lambda>j. columnPosn rs + int j) [0..<length Ts]))"
      by (simp only: shifted_def prod.collapse)
    then have "fst x \<in> set Ts" by (rule set_zip_leftD)
    with assms(2) have "fst x \<noteq> TOther" by auto
    from fieldT_posn_supported[OF assms(1) this, of "snd x"]
    show "(\<exists>y. (case x of (T, p) \<Rightarrow> fieldT_posn T rs p) = Inr y)
          \<or> (case x of (T, p) \<Rightarrow> fieldT_posn T rs p) = Inl OutOfRange"
      by (simp add: case_prod_beta)
  qed
  with assms(3) show ?thesis by (auto simp add: readPack_reads)
qed

lemma step_columnPosn:
  "columnPosn (snd (step rs)) =
     (if fst (sqlite3_step (rstmnt rs)) = SQLITE_ROW then 0 else columnPosn rs)"
  by (simp add: step_def Let_def SQLITE_ROW_def SQLITE_DONE_def split: prod.splits)

lemma exhausted_cursor_fresh: "Resultset_new no_rows_stmt = Inr exhausted_cursor"
  by (simp add: exhausted_cursor_def no_rows_stmt_def example_defs cursor_defs engine_defs
      code_defs upt_2)

lemma two_rows_cursor_wf: "wf two_rows_cursor"
  using Resultset_new_wf[OF two_rows_cursor_fresh] by blast

lemma two_rows_cursor_ncols: "ncols two_rows_cursor = 2"
  by (simp add: ncols_def two_rows_cursor_def two_rows_stmt_def)

lemma rowT_exhausted: "\<not> hasRow rs \<Longrightarrow> rowT Ts rs = (Inr None, rs)"
  by (simp add: rowT_def)


lemma row_exhausted: "\<not> hasRow rs \<Longrightarrow> row rs = (Inr None, rs)"
  by (simp add: row_def)

lemma rowS_exhausted: "\<not> hasRow rs \<Longrightarrow> rowS rs = (Inr None, rs)"
  by (simp add: rowS_def)

lemma read_null: "type c = SQLITE_NULL \<Longrightarrow> read T c st = Inr None"
  by (simp add: read_def)

text \<open>
  C10. Each of \<^verbatim>\<open>nextField\<close>, \<^verbatim>\<open>nextFieldS\<close> and \<^verbatim>\<open>nextFieldT\<close> adds one to the sequential
  cursor and changes nothing else; \<^verbatim>\<open>step\<close> sets it to 0 exactly when the engine
  produces a row and leaves it otherwise. The pack expansion of \<^verbatim>\<open>rowT\<close> does not reset
  it: the \<open>j\<close>-th type is read at position \<open>columnPosn + j\<close>, and with a row and the right
  number of types \<^verbatim>\<open>rowT\<close> is these reads followed by \<^verbatim>\<open>step\<close>. So on a cursor whose
  sequential cursor has moved since the last row, \<^verbatim>\<open>rowT\<close> with as many types as columns
  reads shifted columns, runs past the last one and fails (with the out-of-range error
  when every type is a readable one), without advancing the statement.
\<close>

theorem rowT_reads_from_sequential_cursor:
  "snd (nextField rs) = rs\<lparr>columnPosn := columnPosn rs + 1\<rparr>
   \<and> snd (nextFieldS rs) = rs\<lparr>columnPosn := columnPosn rs + 1\<rparr>
   \<and> snd (nextFieldT T rs) = rs\<lparr>columnPosn := columnPosn rs + 1\<rparr>
   \<and> columnPosn (snd (step rs)) =
       (if fst (sqlite3_step (rstmnt rs)) = SQLITE_ROW then 0 else columnPosn rs)
   \<and> fst (readPack Ts rs) = collect (\<lambda>(T, p). fieldT_posn T rs p) (shifted rs Ts)
   \<and> (hasRow rs \<and> countData rs = int (length Ts) \<longrightarrow>
        fst (rowT Ts rs) =
          (case fst (readPack Ts rs) of
             Inl e \<Rightarrow> Inl e
           | Inr tup \<Rightarrow>
               (case fst (step (snd (readPack Ts rs))) of
                  Inl e \<Rightarrow> Inl e
                | Inr _ \<Rightarrow> Inr (Some tup))))
   \<and> (wf rs \<and> hasRow rs \<and> 0 < columnPosn rs \<and> Ts \<noteq> [] \<and> length Ts = ncols rs \<longrightarrow>
        (\<exists>e. fst (rowT Ts rs) = Inl e)
        \<and> (TOther \<notin> set Ts \<longrightarrow> fst (rowT Ts rs) = Inl OutOfRange)
        \<and> rstmnt (snd (rowT Ts rs)) = rstmnt rs)"
proof (intro conjI impI)
  show "snd (nextField rs) = rs\<lparr>columnPosn := columnPosn rs + 1\<rparr>"
    by (simp add: nextField_def Let_def)
  show "snd (nextFieldS rs) = rs\<lparr>columnPosn := columnPosn rs + 1\<rparr>"
    by (simp add: nextFieldS_def Let_def)
  show "snd (nextFieldT T rs) = rs\<lparr>columnPosn := columnPosn rs + 1\<rparr>"
    by (simp add: nextFieldT_def Let_def)
  show "columnPosn (snd (step rs)) =
       (if fst (sqlite3_step (rstmnt rs)) = SQLITE_ROW then 0 else columnPosn rs)"
    by (rule step_columnPosn)
  show "fst (readPack Ts rs) = collect (\<lambda>(T, p). fieldT_posn T rs p) (shifted rs Ts)"
    by (rule readPack_reads)
next
  assume "hasRow rs \<and> countData rs = int (length Ts)"
  then show "fst (rowT Ts rs) =
          (case fst (readPack Ts rs) of
             Inl e \<Rightarrow> Inl e
           | Inr tup \<Rightarrow>
               (case fst (step (snd (readPack Ts rs))) of
                  Inl e \<Rightarrow> Inl e
                | Inr _ \<Rightarrow> Inr (Some tup)))"
    by (simp add: rowT_via_readPack)
next
  assume a: "wf rs \<and> hasRow rs \<and> 0 < columnPosn rs \<and> Ts \<noteq> [] \<and> length Ts = ncols rs"
  then have cd: "countData rs = int (length Ts)" by (simp add: countData_wf)
  from a obtain e where e: "fst (readPack Ts rs) = Inl e"
    using readPack_shifted_fails by blast
  from a cd e have r: "rowT Ts rs = (Inl e, snd (readPack Ts rs))"
    by (simp add: rowT_failed_read)
  show "\<exists>e. fst (rowT Ts rs) = Inl e" by (simp add: r)
  show "rstmnt (snd (rowT Ts rs)) = rstmnt rs" by (simp add: r readPack_frame)
  {
    assume "TOther \<notin> set Ts"
    with a e have "e = OutOfRange" using readPack_supported_error by blast
    then show "fst (rowT Ts rs) = Inl OutOfRange" by (simp add: r)
  }
qed


theorem rowT_reads_from_sequential_cursor_witness:
  "columnPosn (snd (nextFieldT TString two_rows_cursor)) = 1
   \<and> fst (rowT [TString, TInt] (snd (nextFieldT TString two_rows_cursor))) = Inl OutOfRange
   \<and> rstmnt (snd (rowT [TString, TInt] (snd (nextFieldT TString two_rows_cursor))))
       = rstmnt two_rows_cursor"
proof -
  let ?rs = "snd (nextFieldT TString two_rows_cursor)"
  note T = rowT_reads_from_sequential_cursor[where rs = ?rs and Ts = "[TString, TInt]"]
  note N = rowT_reads_from_sequential_cursor[where rs = two_rows_cursor and T = TString]
  from N have rs: "?rs = two_rows_cursor\<lparr>columnPosn := columnPosn two_rows_cursor + 1\<rparr>"
    by blast
  have c0: "columnPosn two_rows_cursor = 0" and h0: "hasRow two_rows_cursor"
    by (simp_all add: two_rows_cursor_def)
  have c: "columnPosn ?rs = 1" by (simp add: rs c0)
  have w: "wf ?rs" by (simp add: rs two_rows_cursor_wf)
  have h: "hasRow ?rs" by (simp add: rs h0)
  have n: "length [TString, TInt] = ncols ?rs" by (simp add: rs two_rows_cursor_ncols)
  have s: "rstmnt ?rs = rstmnt two_rows_cursor" by (simp add: rs)
  from T w h c n have "fst (rowT [TString, TInt] ?rs) = Inl OutOfRange"
    and "rstmnt (snd (rowT [TString, TInt] ?rs)) = rstmnt ?rs"
    by simp_all
  with c s show ?thesis by simp
qed

text \<open>
  C2. On the first row of the example query, \<^verbatim>\<open>rowT<std::string, int>\<close> called on the fresh
  cursor returns the two columns and steps the statement. Called after one \<^verbatim>\<open>nextField\<close>
  (which returned column 1) it does not read the two columns of the row and advance: it
  fails with the out-of-range error of \<^verbatim>\<open>std::vector::at\<close> and the statement is not
  stepped (the log holds the constructor's step only), while \<^verbatim>\<open>row()\<close> on that same cursor
  returns the row and steps.
\<close>

theorem rowT_after_nextField_out_of_range:
  "fst (rowT [TString, TInt] two_rows_cursor)
     = Inr (Some [Some (RString ''row41''), Some (RInt 4)])
   \<and> calls (rstmnt (snd (rowT [TString, TInt] two_rows_cursor))) = [CallStep, CallStep]
   \<and> fst (nextField two_rows_cursor) = Inr (''int_col'', ''4'')
   \<and> fst (rowT [TString, TInt] (snd (nextField two_rows_cursor))) = Inl OutOfRange
   \<and> calls (rstmnt (snd (rowT [TString, TInt] (snd (nextField two_rows_cursor)))))
       = [CallStep]
   \<and> fst (row (snd (nextField two_rows_cursor)))
       = Inr (Some [(''text_col_key'', ''row41''), (''int_col'', ''4'')])
   \<and> calls (rstmnt (snd (row (snd (nextField two_rows_cursor))))) = [CallStep, CallStep]"
  by (simp add: two_rows_cursor_def example_defs cursor_defs engine_defs code_defs upt_2
      Let_def)

section \<open>Storage classes across rows\<close>

text \<open>
  C4. The example query has an integer in its second column in the first row and SQL NULL
  there in the second row. After \<^verbatim>\<open>row()\<close> has advanced the fresh cursor to the second
  row, the engine reports the storage class null for that column, and the string read
  gives the empty string, but the typed reads do not give "no value": \<^verbatim>\<open>fieldT<int>\<close>
  gives the integer 0 and \<^verbatim>\<open>fieldT<std::string>\<close> the empty string, because the
  \<^verbatim>\<open>ResultColumn\<close> still holds the storage class of the first row.
\<close>

theorem fieldT_stale_storage_class:
  "fst (row two_rows_cursor) = Inr (Some [(''text_col_key'', ''row41''), (''int_col'', ''4'')])
   \<and> hasRow (snd (row two_rows_cursor))
   \<and> sqlite3_column_type (rstmnt (snd (row two_rows_cursor))) 1 = SQLITE_NULL
   \<and> fieldT_posn TInt (snd (row two_rows_cursor)) 1 = Inr (Some (RInt 0))
   \<and> fieldT_posn TString (snd (row two_rows_cursor)) 1 = Inr (Some (RString []))
   \<and> fieldS (snd (row two_rows_cursor)) 1 = Inr []"
  by (simp add: two_rows_cursor_def example_defs cursor_defs engine_defs code_defs upt_2
      Let_def)


section \<open>Single-field access\<close>

lemma posn_loop_None:
  "nm \<notin> (\<lambda>c. name c st) ` set cs \<Longrightarrow> posn_loop cs st nm i = None"
  by (induction cs arbitrary: i) auto

lemma posn_loop_Some:
  "nm \<in> (\<lambda>c. name c st) ` set cs \<Longrightarrow>
     \<exists>k<length cs. posn_loop cs st nm i = Some (i + int k) \<and> name (cs ! k) st = nm
        \<and> (\<forall>j<k. name (cs ! j) st \<noteq> nm)"
proof (induction cs arbitrary: i)
  case Nil
  then show ?case by simp
next
  case (Cons c cs)
  show ?case
  proof (cases "name c st = nm")
    case True
    then have "posn_loop (c # cs) st nm i = Some (i + int 0) \<and> name ((c # cs) ! 0) st = nm
        \<and> (\<forall>j<0. name ((c # cs) ! j) st \<noteq> nm)" by simp
    then show ?thesis by blast
  next
    case False
    with Cons.prems have "nm \<in> (\<lambda>c. name c st) ` set cs" by auto
    from Cons.IH[OF this, of "i + 1"] obtain k where k: "k < length cs"
      "posn_loop cs st nm (i + 1) = Some (i + 1 + int k)" "name (cs ! k) st = nm"
      "\<forall>j<k. name (cs ! j) st \<noteq> nm" by blast
    have "\<forall>j<Suc k. name ((c # cs) ! j) st \<noteq> nm"
    proof (intro allI impI)
      fix j assume "j < Suc k"
      with False k(4) show "name ((c # cs) ! j) st \<noteq> nm" by (cases j) simp_all
    qed
    with False k have "Suc k < length (c # cs)
        \<and> posn_loop (c # cs) st nm i = Some (i + int (Suc k))
        \<and> name ((c # cs) ! Suc k) st = nm \<and> (\<forall>j<Suc k. name ((c # cs) ! j) st \<noteq> nm)"
      by simp
    then show ?thesis by blast
  qed
qed

lemma wf_names: "wf rs \<Longrightarrow> map (\<lambda>c. name c (rstmnt rs)) (columns rs) = col_names (rstmnt rs)"
  by (rule nth_equalityI) (simp_all add: wf_length name_wf ncols_def[symmetric])

lemma wf_name_set: "wf rs \<Longrightarrow> (\<lambda>c. name c (rstmnt rs)) ` set (columns rs) = set (col_names (rstmnt rs))"
  using wf_names[of rs] by (metis set_map)

text \<open>
  C3 (amended). The positional accessor \<^verbatim>\<open>field(posn)\<close> returns the default, empty field
  for every position when the cursor is exhausted; with a row it fails with the
  out-of-range error for a position that is not a column and returns that column's field
  otherwise. The named accessor \<^verbatim>\<open>field(name)\<close> resolves the name first: a name that is
  not a column fails with the column-not-found error whether or not a row is available,
  and with a row a known name returns the field of the first column of that name. Both
  are \<^verbatim>\<open>const\<close> methods that only read the cursor, so neither returns a new cursor state.
\<close>

theorem field_accessors:
  "(\<not> hasRow rs \<longrightarrow> field rs p = Inr ([], []))
   \<and> (wf rs \<and> hasRow rs \<and> \<not> (0 \<le> p \<and> p < int (ncols rs)) \<longrightarrow> field rs p = Inl OutOfRange)
   \<and> (wf rs \<and> hasRow rs \<and> 0 \<le> p \<and> p < int (ncols rs) \<longrightarrow>
        field rs p = Inr (column_field rs (nat p)))
   \<and> (wf rs \<and> nm \<notin> set (col_names (rstmnt rs)) \<longrightarrow>
        field_name rs nm = Inl (ColNameNotFound nm))
   \<and> (wf rs \<and> hasRow rs \<and> nm \<in> set (col_names (rstmnt rs)) \<longrightarrow>
        (\<exists>k<ncols rs. col_names (rstmnt rs) ! k = nm
            \<and> (\<forall>j<k. col_names (rstmnt rs) ! j \<noteq> nm)
            \<and> field_name rs nm = Inr (column_field rs k)))"
proof (intro conjI impI)
  assume "\<not> hasRow rs"
  then show "field rs p = Inr ([], [])" by (simp add: field_def)
next
  assume "wf rs \<and> hasRow rs \<and> \<not> (0 \<le> p \<and> p < int (ncols rs))"
  then show "field rs p = Inl OutOfRange" by (simp add: field_wf)
next
  assume "wf rs \<and> hasRow rs \<and> 0 \<le> p \<and> p < int (ncols rs)"
  then show "field rs p = Inr (column_field rs (nat p))" by (simp add: field_wf)
next
  assume "wf rs \<and> nm \<notin> set (col_names (rstmnt rs))"
  then have "posn_loop (columns rs) (rstmnt rs) nm 0 = None"
    by (intro posn_loop_None) (simp add: wf_name_set)
  then show "field_name rs nm = Inl (ColNameNotFound nm)"
    by (simp add: field_name_def Resultset_posn_def)
next
  assume a: "wf rs \<and> hasRow rs \<and> nm \<in> set (col_names (rstmnt rs))"
  then have w: "wf rs" by simp
  from a have "nm \<in> (\<lambda>c. name c (rstmnt rs)) ` set (columns rs)"
    by (simp add: wf_name_set)
  from posn_loop_Some[OF this, of 0] obtain k where k: "k < length (columns rs)"
    "posn_loop (columns rs) (rstmnt rs) nm 0 = Some (int k)"
    "name (columns rs ! k) (rstmnt rs) = nm"
    "\<forall>j<k. name (columns rs ! j) (rstmnt rs) \<noteq> nm" by auto
  from k(1) have kn: "k < ncols rs" by (simp add: wf_length[OF w])
  have n1: "col_names (rstmnt rs) ! k = nm" using k(3) kn by (simp add: name_wf[OF w])
  have n2: "\<forall>j<k. col_names (rstmnt rs) ! j \<noteq> nm"
    using k(4) kn by (simp add: name_wf[OF w])
  have "field_name rs nm = Inr (column_field rs k)"
    using kn k(2) by (simp add: field_name_def Resultset_posn_def vector_at_wf[OF w]
        ResultColumn_field_wf[OF w])
  with kn n1 n2 show "\<exists>k<ncols rs. col_names (rstmnt rs) ! k = nm
            \<and> (\<forall>j<k. col_names (rstmnt rs) ! j \<noteq> nm)
            \<and> field_name rs nm = Inr (column_field rs k)" by blast
qed

theorem field_accessors_witness:
  "field exhausted_cursor 0 = Inr ([], [])
   \<and> field exhausted_cursor 8 = Inr ([], [])
   \<and> field two_rows_cursor 8 = Inl OutOfRange
   \<and> field two_rows_cursor 1 = Inr (''int_col'', ''4'')
   \<and> field_name two_rows_cursor ''nope'' = Inl (ColNameNotFound ''nope'')
   \<and> field_name two_rows_cursor ''int_col'' = Inr (''int_col'', ''4'')"
proof -
  note E0 = field_accessors[where rs = exhausted_cursor and p = 0]
  note E8 = field_accessors[where rs = exhausted_cursor and p = 8]
  note R8 = field_accessors[where rs = two_rows_cursor and p = 8 and nm = "''nope''"]
  note R1 = field_accessors[where rs = two_rows_cursor and p = 1 and nm = "''int_col''"]
  have e: "\<not> hasRow exhausted_cursor" by (simp add: exhausted_cursor_def)
  have h: "hasRow two_rows_cursor" by (simp add: two_rows_cursor_def)
  have names: "col_names (rstmnt two_rows_cursor) = [''text_col_key'', ''int_col'']"
    by (simp add: two_rows_cursor_def two_rows_stmt_def)
  have f1: "column_field two_rows_cursor (Suc 0) = (''int_col'', ''4'')"
    by (simp add: column_field_def two_rows_cursor_def example_defs cell_at_def cell_text_def)
  from E0 e have c1: "field exhausted_cursor 0 = Inr ([], [])" by blast
  from E8 e have c2: "field exhausted_cursor 8 = Inr ([], [])" by blast
  from R8 h two_rows_cursor_wf two_rows_cursor_ncols
  have c3: "field two_rows_cursor 8 = Inl OutOfRange" by simp
  from R1 h two_rows_cursor_wf two_rows_cursor_ncols f1
  have c4: "field two_rows_cursor 1 = Inr (''int_col'', ''4'')" by simp
  from R8 two_rows_cursor_wf names
  have c5: "field_name two_rows_cursor ''nope'' = Inl (ColNameNotFound ''nope'')" by simp
  from R1 h two_rows_cursor_wf names obtain k where k: "k < ncols two_rows_cursor"
    "col_names (rstmnt two_rows_cursor) ! k = ''int_col''"
    "field_name two_rows_cursor ''int_col'' = Inr (column_field two_rows_cursor k)"
    by auto
  from k(1,2) have "k = Suc 0"
    by (cases k) (simp_all add: names two_rows_cursor_ncols)
  with k(3) f1 have c6: "field_name two_rows_cursor ''int_col'' = Inr (''int_col'', ''4'')"
    by simp
  from c1 c2 c3 c4 c5 c6 show ?thesis by blast
qed

text \<open>
  C3 as stated fails on the cursor over the query that selects no row: the cursor is
  exhausted, and the named accessor fails for an unknown name instead of returning the
  default field.
\<close>

theorem field_name_exhausted_counterexample:
  "Resultset_new no_rows_stmt = Inr exhausted_cursor
   \<and> empty exhausted_cursor
   \<and> field_name exhausted_cursor ''nope'' = Inl (ColNameNotFound ''nope'')
   \<and> field_name exhausted_cursor ''nope'' \<noteq> Inr ([], [])"
  using exhausted_cursor_fresh
  by (simp add: exhausted_cursor_def no_rows_stmt_def example_defs cursor_defs engine_defs
      code_defs empty_def)

section \<open>The bulk accessors\<close>




lemma row_keeps_wf:
  assumes "wf rs" and "fst (row rs) = Inr r"
  shows "wf (snd (row rs))"
proof (cases "hasRow rs")
  case False
  with assms(1) show ?thesis by (simp add: row_def)
next
  case True
  from assms(2) have "fst (step rs) = Inr ()"
    by (cases "step rs") (simp add: row_wf[OF assms(1) True] split: sum.splits)
  from step_wf[OF assms(1) this] show ?thesis
    by (cases "step rs") (simp add: row_wf[OF assms(1) True] split: sum.splits)
qed

lemma rowS_keeps_wf:
  assumes "wf rs" and "fst (rowS rs) = Inr r"
  shows "wf (snd (rowS rs))"
proof (cases "hasRow rs")
  case False
  with assms(1) show ?thesis by (simp add: rowS_def)
next
  case True
  from assms(2) have "fst (step rs) = Inr ()"
    by (cases "step rs") (simp add: rowS_wf[OF assms(1) True] split: sum.splits)
  from step_wf[OF assms(1) this] show ?thesis
    by (cases "step rs") (simp add: rowS_wf[OF assms(1) True] split: sum.splits)
qed

lemma readPack_keeps_wf: "wf (snd (readPack Ts rs)) = wf rs"
  using readPack_frame[of Ts rs] by (simp add: wf_def)

lemma rowT_keeps_wf:
  assumes "wf rs" and "fst (rowT Ts rs) = Inr r"
  shows "wf (snd (rowT Ts rs))"
proof (cases "hasRow rs")
  case False
  with assms(1) show ?thesis by (simp add: rowT_def)
next
  case True
  let ?rs1 = "snd (readPack Ts rs)"
  have w1: "wf ?rs1" by (simp add: readPack_keeps_wf assms(1))
  from assms(2) True have s: "fst (step ?rs1) = Inr ()" and e: "rowT Ts rs = (Inr r, snd (step ?rs1))"
    by (cases "readPack Ts rs"; cases "step ?rs1";
        simp add: rowT_def split: sum.splits if_splits)+
  from step_wf[OF w1 s] e show ?thesis by simp
qed

lemma collect_map: "collect f (map g xs) = collect (\<lambda>x. f (g x)) xs"
  by (induction xs) (simp_all split: sum.splits)

lemma collect_cong: "(\<And>x. x \<in> set xs \<Longrightarrow> f x = g x) \<Longrightarrow> collect f xs = collect g xs"
proof (induction xs)
  case Nil
  show ?case by simp
next
  case (Cons a xs)
  then have "f a = g a" and "collect f xs = collect g xs" by simp_all
  then show ?case by (simp split: sum.splits)
qed

lemma fieldT_posn_wf:
  "wf rs \<Longrightarrow> hasRow rs \<Longrightarrow> i < ncols rs \<Longrightarrow>
     fieldT_posn T rs (int i) = read T (columns rs ! i) (rstmnt rs)"
  by (simp add: fieldT_posn_def vector_at_wf)

lemma rowT_fresh_row:
  assumes "wf rs" and "hasRow rs" and "columnPosn rs = 0" and "length Ts \<le> ncols rs"
  shows "fst (readPack Ts rs) =
           collect (\<lambda>(T, i). read T (columns rs ! i) (rstmnt rs))
             (zip Ts [0..<length Ts])"
proof -
  have "shifted rs Ts = map (\<lambda>(T, i). (T, int i)) (zip Ts [0..<length Ts])"
    by (simp add: shifted_def assms(3) zip_map2)
  then have "fst (readPack Ts rs)
      = collect (\<lambda>x. case (case x of (T, i) \<Rightarrow> (T, int i)) of (T, p) \<Rightarrow> fieldT_posn T rs p)
          (zip Ts [0..<length Ts])"
    by (simp add: readPack_reads collect_map)
  also have "\<dots> = collect (\<lambda>(T, i). read T (columns rs ! i) (rstmnt rs))
             (zip Ts [0..<length Ts])"
  proof (rule collect_cong)
    fix x assume x: "x \<in> set (zip Ts [0..<length Ts])"
    then have "(fst x, snd x) \<in> set (zip Ts [0..<length Ts])" by simp
    then have "snd x \<in> set [0..<length Ts]" by (rule set_zip_rightD)
    with assms(4) have "snd x < ncols rs" by simp
    from fieldT_posn_wf[OF assms(1,2) this]
    show "(case (case x of (T, i) \<Rightarrow> (T, int i)) of (T, p) \<Rightarrow> fieldT_posn T rs p)
        = (case x of (T, i) \<Rightarrow> read T (columns rs ! i) (rstmnt rs))"
      by (simp add: case_prod_beta)
  qed
  finally show ?thesis .
qed







end
